theory Spec2Isabelle
  imports Complex_Main "HOL-Library.Sublist"
begin

section \<open>JavaScript values that reach the configuration\<close>

text \<open>
  A JavaScript number is a finite value, one of the two infinities, or NaN. The model
  only compares numbers and tests them for finiteness, so the finite values are modelled
  by the reals; the one place where the code computes with doubles is left as a
  parameter (see \<open>getElapsedSinceLastPrompt\<close>).
\<close>

datatype number = Finite real | PosInf | NegInf | NaN

text \<open>
  What \<open>JSON.parse\<close> returns. A numeric literal too large for a double parses to an
  infinity (\<open>1e999\<close> is \<open>Infinity\<close>); NaN never comes out of \<open>JSON.parse\<close>. An object is
  the list of its members in the order of the text; where a name occurs twice, the later
  member is the one that counts, as in \<open>JSON.parse\<close>. The value \<open>undefined\<close> is \<open>None\<close>
  of \<open>json option\<close>.
\<close>

datatype json =
    JNull
  | JBool bool
  | JNum number
  | JStr string
  | JArr "json list"
  | JObj "(string \<times> json) list"

datatype error = TypeError | SyntaxError

text \<open>Arrays and objects, the values that have an identity.\<close>

fun composite :: "json \<Rightarrow> bool" where
  "composite (JArr xs) = True"
| "composite (JObj kvs) = True"
| "composite v = False"

text \<open>\<open>typeof x === "number" && Number.isFinite(x) && x > 0\<close>, and \<open>x > 0\<close> alone.\<close>

fun isFinite :: "number \<Rightarrow> bool" where
  "isFinite (Finite r) = True"
| "isFinite PosInf = False"
| "isFinite NegInf = False"
| "isFinite NaN = False"

fun gtZero :: "number \<Rightarrow> bool" where
  "gtZero (Finite r) = (0 < r)"
| "gtZero PosInf = True"
| "gtZero NegInf = False"
| "gtZero NaN = False"

text \<open>\<open>a < b\<close> on numbers: false as soon as one side is NaN.\<close>

fun numLess :: "number \<Rightarrow> number \<Rightarrow> bool" where
  "numLess NaN b = False"
| "numLess a NaN = False"
| "numLess (Finite a) (Finite b) = (a < b)"
| "numLess (Finite a) PosInf = True"
| "numLess (Finite a) NegInf = False"
| "numLess PosInf b = False"
| "numLess NegInf NegInf = False"
| "numLess NegInf b = True"

text \<open>Truthiness of a value in a condition (\<open>if (v)\<close>, \<open>!v\<close>, \<open>a || b\<close>).\<close>

fun truthy :: "json \<Rightarrow> bool" where
  "truthy JNull = False"
| "truthy (JBool b) = b"
| "truthy (JNum (Finite r)) = (r \<noteq> 0)"
| "truthy (JNum NaN) = False"
| "truthy (JNum n) = True"
| "truthy (JStr s) = (s \<noteq> [])"
| "truthy (JArr xs) = True"
| "truthy (JObj kvs) = True"

text \<open>
  \<open>a === b\<close>, and \<open>a !== b\<close> as its negation. Null, booleans, numbers and strings are
  compared by value, and NaN differs from itself. An array or an object is strictly equal
  only to itself: \<open>sameObject\<close> says whether the two operands are one and the same
  object, which the values alone do not tell.
\<close>

fun strictEq :: "bool \<Rightarrow> json \<Rightarrow> json \<Rightarrow> bool" where
  "strictEq sameObject (JArr xs) b = (sameObject \<and> b = JArr xs)"
| "strictEq sameObject (JObj kvs) b = (sameObject \<and> b = JObj kvs)"
| "strictEq sameObject (JNum NaN) b = False"
| "strictEq sameObject a b = (a = b)"

text \<open>
  \<open>v.k\<close> for a value \<open>v\<close> that is neither null nor undefined, for the property names the
  program reads (none of them is a property of a string, a number, a boolean or an
  array); \<open>v?.k\<close>; and \<open>a ?? b\<close>, once with a right-hand side that may be undefined
  and once with one that is a value. Reading \<open>v.k\<close> from null throws a TypeError, which
  the functions below return as \<open>Inl TypeError\<close>; the SyntaxError of \<open>JSON.parse\<close> is the
  case \<open>Unparsable\<close> of the file.
\<close>

fun propOf :: "json \<Rightarrow> string \<Rightarrow> json option" where
  "propOf (JObj kvs) k = map_of (rev kvs) k"
| "propOf v k = None"

fun optChain :: "json option \<Rightarrow> string \<Rightarrow> json option" where
  "optChain None k = None"
| "optChain (Some JNull) k = None"
| "optChain (Some v) k = propOf v k"

fun nullish :: "json option \<Rightarrow> json option \<Rightarrow> json option" where
  "nullish None b = b"
| "nullish (Some JNull) b = b"
| "nullish (Some v) b = Some v"

fun nullishOr :: "json option \<Rightarrow> json \<Rightarrow> json" where
  "nullishOr None b = b"
| "nullishOr (Some JNull) b = b"
| "nullishOr (Some v) b = v"

section \<open>The configuration (config.ts)\<close>

datatype EventType = permission | complete | subagent_complete | error | question

record EventConfig =
  sound :: json
  notification :: json

record CommandConfig =
  enabled :: bool
  path :: string
  args :: "string list option"
  minDuration :: "number option"

text \<open>
  \<open>NotifierConfig\<close>. Its fields \<open>sound\<close> and \<open>notification\<close> are called \<open>globalSound\<close> and
  \<open>globalNotification\<close> here, the names \<open>loadConfig\<close> gives them, since \<open>EventConfig\<close> has
  fields of the same names. The interface declares booleans and strings, but
  \<open>loadConfig\<close> stores whatever the file holds (\<open>userConfig.sound ?? ...\<close>), so these
  fields are JSON values. The three tables are indexed by the event type, as
  \<open>config.events[event]\<close> is.

  A flag read from the file may be an array or an object, and \<open>saveConfig\<close> compares
  flags with \<open>!==\<close>, so it matters which flags are one and the same object. The only
  sharing that \<open>loadConfig\<close> creates is between an event's flag and the global flag it
  was defaulted from; \<open>fromGlobal\<close> records, for the \<open>sound\<close> and the \<open>notification\<close> of
  each event, whether the flag was taken over from \<open>defaultWithGlobal\<close>.
\<close>

record NotifierConfig =
  globalSound :: json
  globalNotification :: json
  timeout :: number
  showProjectName :: json
  showIcon :: json
  notificationSystem :: string
  command :: CommandConfig
  events :: "EventType \<Rightarrow> EventConfig"
  messages :: "EventType \<Rightarrow> json"
  sounds :: "EventType \<Rightarrow> json"
  fromGlobal :: "EventType \<Rightarrow> bool \<times> bool"

definition DEFAULT_EVENT_CONFIG :: EventConfig where
  "DEFAULT_EVENT_CONFIG = \<lparr>sound = JBool True, notification = JBool True\<rparr>"

fun DEFAULT_messages :: "EventType \<Rightarrow> json" where
  "DEFAULT_messages permission = JStr ''Session needs permission''"
| "DEFAULT_messages complete = JStr ''Session has finished''"
| "DEFAULT_messages subagent_complete = JStr ''Subagent task completed''"
| "DEFAULT_messages error = JStr ''Session encountered an error''"
| "DEFAULT_messages question = JStr ''Session has a question''"

fun DEFAULT_events :: "EventType \<Rightarrow> EventConfig" where
  "DEFAULT_events subagent_complete = \<lparr>sound = JBool False, notification = JBool False\<rparr>"
| "DEFAULT_events e = DEFAULT_EVENT_CONFIG"

definition DEFAULT_CONFIG :: NotifierConfig where
  "DEFAULT_CONFIG = \<lparr>
     globalSound = JBool True,
     globalNotification = JBool True,
     timeout = Finite 5,
     showProjectName = JBool True,
     showIcon = JBool True,
     notificationSystem = ''osascript'',
     command = \<lparr>enabled = False, path = '''', args = None, minDuration = Some (Finite 0)\<rparr>,
     events = DEFAULT_events,
     messages = DEFAULT_messages,
     sounds = (\<lambda>e. JNull),
     fromGlobal = (\<lambda>e. (False, False))\<rparr>"

text \<open>The key of an event type in the file and in the tables.\<close>

fun eventKey :: "EventType \<Rightarrow> string" where
  "eventKey permission = ''permission''"
| "eventKey complete = ''complete''"
| "eventKey subagent_complete = ''subagent_complete''"
| "eventKey error = ''error''"
| "eventKey question = ''question''"

text \<open>
  \<open>parseEventConfig\<close>. The declared type of \<open>userEvent\<close> leaves out null, but
  \<open>userConfig.events?.x ?? userConfig.x\<close> is null when the legacy key holds null; then
  \<open>userEvent.sound\<close> throws a TypeError.
\<close>

fun parseEventConfig :: "json option \<Rightarrow> EventConfig \<Rightarrow> error + EventConfig" where
  "parseEventConfig None defaultConfig = Inr defaultConfig"
| "parseEventConfig (Some (JBool userEvent)) defaultConfig =
     Inr \<lparr>sound = JBool userEvent, notification = JBool userEvent\<rparr>"
| "parseEventConfig (Some JNull) defaultConfig = Inl TypeError"
| "parseEventConfig (Some userEvent) defaultConfig =
     Inr \<lparr>sound = nullishOr (propOf userEvent ''sound'') (sound defaultConfig),
          notification = nullishOr (propOf userEvent ''notification'') (notification defaultConfig)\<rparr>"

text \<open>
  Whether the flag \<open>k\<close> of the result of \<open>parseEventConfig\<close> is the default's own value:
  the function returned \<open>defaultConfig\<close> itself, or \<open>userEvent.k ?? defaultConfig.k\<close> took
  the right-hand side.
\<close>

fun inherits :: "json option \<Rightarrow> string \<Rightarrow> bool" where
  "inherits None k = True"
| "inherits (Some (JBool userEvent)) k = False"
| "inherits (Some JNull) k = False"
| "inherits (Some userEvent) k = (nullish (propOf userEvent k) None = None)"

text \<open>\<open>userConfig.events?.<event> ?? userConfig.<event>\<close>, for a \<open>userConfig\<close> that is not null.\<close>

definition userEvent :: "json \<Rightarrow> EventType \<Rightarrow> json option" where
  "userEvent userConfig e =
     nullish (optChain (propOf userConfig ''events'') (eventKey e)) (propOf userConfig (eventKey e))"

text \<open>\<open>Array.isArray(a) ? a.filter(arg => typeof arg === "string") : undefined\<close>.\<close>

fun stringsOf :: "json list \<Rightarrow> string list" where
  "stringsOf [] = []"
| "stringsOf (JStr s # xs) = s # stringsOf xs"
| "stringsOf (x # xs) = stringsOf xs"

fun commandArgs :: "json option \<Rightarrow> string list option" where
  "commandArgs (Some (JArr xs)) = Some (stringsOf xs)"
| "commandArgs v = None"

fun commandMinDuration :: "json option \<Rightarrow> number" where
  "commandMinDuration (Some (JNum n)) = (if isFinite n \<and> gtZero n then n else Finite 0)"
| "commandMinDuration v = Finite 0"

fun loadTimeout :: "json option \<Rightarrow> number \<Rightarrow> number" where
  "loadTimeout (Some (JNum n)) d = (if gtZero n then n else d)"
| "loadTimeout v d = d"

fun loadEnabled :: "json option \<Rightarrow> bool \<Rightarrow> bool" where
  "loadEnabled (Some (JBool b)) d = b"
| "loadEnabled v d = d"

fun loadPath :: "json option \<Rightarrow> string \<Rightarrow> string" where
  "loadPath (Some (JStr s)) d = s"
| "loadPath v d = d"

fun loadNotificationSystem :: "json option \<Rightarrow> string" where
  "loadNotificationSystem (Some (JStr s)) = (if s = ''node-notifier'' then ''node-notifier'' else ''osascript'')"
| "loadNotificationSystem v = ''osascript''"

fun throws :: "error + 'a \<Rightarrow> bool" where
  "throws (Inl x) = True"
| "throws (Inr c) = False"

text \<open>
  The body of the \<open>try\<close> block of \<open>loadConfig\<close>, after \<open>JSON.parse\<close> has returned
  \<open>userConfig\<close>. \<open>D\<close> is the module's \<open>DEFAULT_CONFIG\<close> object as it is at the time of the
  call. Reading a property of \<open>userConfig\<close> throws when the file holds \<open>null\<close>, and
  \<open>parseEventConfig\<close> throws on a null entry; every other step is total.
\<close>

definition loadBody :: "NotifierConfig \<Rightarrow> json \<Rightarrow> error + NotifierConfig" where
  "loadBody D userConfig =
    (if userConfig = JNull then Inl TypeError
     else
       let globalSound = nullishOr (propOf userConfig ''sound'') (globalSound D);
           globalNotification = nullishOr (propOf userConfig ''notification'') (globalNotification D);
           defaultWithGlobal = \<lparr>sound = globalSound, notification = globalNotification\<rparr>;
           userCommand = nullishOr (propOf userConfig ''command'') (JObj []);
           parsed = (\<lambda>e. parseEventConfig (userEvent userConfig e)
                      (if e = subagent_complete
                       then \<lparr>sound = JBool False, notification = JBool False\<rparr>
                       else defaultWithGlobal))
       in if throws (parsed permission) \<or> throws (parsed complete) \<or>
             throws (parsed subagent_complete) \<or> throws (parsed error) \<or> throws (parsed question)
          then Inl TypeError
          else Inr \<lparr>
            globalSound = globalSound,
            globalNotification = globalNotification,
            timeout = loadTimeout (propOf userConfig ''timeout'') (timeout D),
            showProjectName = nullishOr (propOf userConfig ''showProjectName'') (showProjectName D),
            showIcon = nullishOr (propOf userConfig ''showIcon'') (showIcon D),
            notificationSystem = loadNotificationSystem (propOf userConfig ''notificationSystem''),
            command = \<lparr>
              enabled = loadEnabled (propOf userCommand ''enabled'') (enabled (command D)),
              path = loadPath (propOf userCommand ''path'') (path (command D)),
              args = commandArgs (propOf userCommand ''args''),
              minDuration = Some (commandMinDuration (propOf userCommand ''minDuration''))\<rparr>,
            events = (\<lambda>e. case parsed e of Inr c \<Rightarrow> c | Inl x \<Rightarrow> events D e),
            messages = (\<lambda>e. nullishOr (optChain (propOf userConfig ''messages'') (eventKey e)) (messages D e)),
            sounds = (\<lambda>e. nullishOr (optChain (propOf userConfig ''sounds'') (eventKey e)) (sounds D e)),
            fromGlobal = (\<lambda>e. if e = subagent_complete then (False, False)
                              else (inherits (userEvent userConfig e) ''sound'',
                                    inherits (userEvent userConfig e) ''notification''))\<rparr>)"

text \<open>
  The configuration file: absent (\<open>None\<close>), or present with a text that \<open>JSON.parse\<close>
  rejects (\<open>Unparsable\<close>; a read error ends in the same \<open>catch\<close>) or turns into a value.
\<close>

datatype fileContent = Unparsable | Parses json

text \<open>
  \<open>loadConfig\<close>. When the file is absent, or the \<open>try\<close> block throws, the function
  returns the \<open>DEFAULT_CONFIG\<close> object itself, not a copy: \<open>loadShared\<close> says so, for the
  callers that assign to a field of the result.
\<close>

fun loadConfig :: "NotifierConfig \<Rightarrow> fileContent option \<Rightarrow> NotifierConfig" where
  "loadConfig D None = D"
| "loadConfig D (Some Unparsable) = D"
| "loadConfig D (Some (Parses userConfig)) =
     (case loadBody D userConfig of Inr c \<Rightarrow> c | Inl x \<Rightarrow> D)"

fun loadShared :: "NotifierConfig \<Rightarrow> fileContent option \<Rightarrow> bool" where
  "loadShared D None = True"
| "loadShared D (Some Unparsable) = True"
| "loadShared D (Some (Parses userConfig)) =
     (case loadBody D userConfig of Inr c \<Rightarrow> False | Inl x \<Rightarrow> True)"

text \<open>The default that \<open>loadConfig\<close> passes to \<open>parseEventConfig\<close> for an event type.\<close>

definition eventDefault :: "NotifierConfig \<Rightarrow> json \<Rightarrow> EventType \<Rightarrow> EventConfig" where
  "eventDefault D userConfig e =
     (if e = subagent_complete then \<lparr>sound = JBool False, notification = JBool False\<rparr>
      else \<lparr>sound = nullishOr (propOf userConfig ''sound'') (globalSound D),
            notification = nullishOr (propOf userConfig ''notification'') (globalNotification D)\<rparr>)"

definition isEventSoundEnabled :: "'a NotifierConfig_scheme \<Rightarrow> EventType \<Rightarrow> json" where
  "isEventSoundEnabled config event = sound (events config event)"

definition isEventNotificationEnabled :: "'a NotifierConfig_scheme \<Rightarrow> EventType \<Rightarrow> json" where
  "isEventNotificationEnabled config event = notification (events config event)"

definition getMessage :: "'a NotifierConfig_scheme \<Rightarrow> EventType \<Rightarrow> json" where
  "getMessage config event = messages config event"

definition getSoundPath :: "'a NotifierConfig_scheme \<Rightarrow> EventType \<Rightarrow> json" where
  "getSoundPath config event = sounds config event"

text \<open>
  The value that the text \<open>JSON.stringify(v)\<close> parses to, for a value without
  \<open>undefined\<close> inside: a number that is not finite is written as \<open>null\<close>.
\<close>

primrec stringify :: "json \<Rightarrow> json" where
  "stringify JNull = JNull"
| "stringify (JBool b) = JBool b"
| "stringify (JNum n) = (if isFinite n then JNum n else JNull)"
| "stringify (JStr s) = JStr s"
| "stringify (JArr xs) = JArr (map stringify xs)"
| "stringify (JObj kvs) = JObj (map (map_prod id stringify) kvs)"

text \<open>
  A document that \<open>JSON.stringify\<close> writes back as it is: it holds no infinite number.
\<close>

definition stable :: "json \<Rightarrow> bool" where
  "stable v = (stringify v = v)"

text \<open>An object literal with entries that may be \<open>undefined\<close>, without those entries.\<close>

fun defined :: "(string \<times> json option) list \<Rightarrow> (string \<times> json) list" where
  "defined [] = []"
| "defined ((k, None) # kvs) = defined kvs"
| "defined ((k, Some v) # kvs) = (k, v) # defined kvs"

definition eventJson :: "EventConfig \<Rightarrow> json" where
  "eventJson ev = JObj [(''sound'', sound ev), (''notification'', notification ev)]"

text \<open>
  One entry of \<open>userConfig.events\<close> in \<open>saveConfig\<close>:
  \<open>ev.sound !== d.sound || ev.notification !== d.notification ? ev : undefined\<close>.
  \<open>same\<close> says, for each of the two flags, whether the event's flag and the default's
  are the same object.
\<close>

definition savedEvent :: "bool \<times> bool \<Rightarrow> EventConfig \<Rightarrow> EventConfig \<Rightarrow> json option" where
  "savedEvent same ev d =
     (if \<not> strictEq (fst same) (sound ev) (sound d)
         \<or> \<not> strictEq (snd same) (notification ev) (notification d)
      then Some (eventJson ev) else None)"

text \<open>
  The entry of \<open>subagent_complete\<close> is compared with the literal \<open>false\<close>, which no object
  is identical to.
\<close>

definition nestedEvents :: "NotifierConfig \<Rightarrow> (string \<times> json) list" where
  "nestedEvents config =
     (let defaultWithGlobal = \<lparr>sound = globalSound config, notification = globalNotification config\<rparr>
      in defined [
        (''permission'', savedEvent (fromGlobal config permission) (events config permission) defaultWithGlobal),
        (''complete'', savedEvent (fromGlobal config complete) (events config complete) defaultWithGlobal),
        (''subagent_complete'', savedEvent (False, False) (events config subagent_complete)
            \<lparr>sound = JBool False, notification = JBool False\<rparr>),
        (''error'', savedEvent (fromGlobal config error) (events config error) defaultWithGlobal),
        (''question'', savedEvent (fromGlobal config question) (events config question) defaultWithGlobal)])"

text \<open>
  The default that \<open>saveConfig\<close> compares the entry of an event type with, and whether the
  entry's flags are the default's own objects.
\<close>

definition savedSame :: "NotifierConfig \<Rightarrow> EventType \<Rightarrow> bool \<times> bool" where
  "savedSame config e = (if e = subagent_complete then (False, False) else fromGlobal config e)"

definition savedDefault :: "NotifierConfig \<Rightarrow> EventType \<Rightarrow> EventConfig" where
  "savedDefault config e =
     (if e = subagent_complete then \<lparr>sound = JBool False, notification = JBool False\<rparr>
      else \<lparr>sound = globalSound config, notification = globalNotification config\<rparr>)"

definition commandJson :: "CommandConfig \<Rightarrow> json" where
  "commandJson c = JObj (defined [
     (''enabled'', Some (JBool (enabled c))),
     (''path'', Some (JStr (path c))),
     (''args'', map_option (\<lambda>xs. JArr (map JStr xs)) (args c)),
     (''minDuration'', map_option JNum (minDuration c))])"

definition messagesJson :: "(EventType \<Rightarrow> json) \<Rightarrow> json" where
  "messagesJson m = JObj (map (\<lambda>e. (eventKey e, m e))
     [permission, complete, subagent_complete, error, question])"

text \<open>
  \<open>cleanedConfig\<close>, the object that \<open>saveConfig\<close> hands to \<open>JSON.stringify\<close>: the six
  global fields, the per-event entries that differ from their defaults (the key
  \<open>events\<close> is deleted when none does), the command when it is enabled or has a path,
  and the messages. The table \<open>sounds\<close> is not written.
\<close>

definition cleanedConfig :: "NotifierConfig \<Rightarrow> json" where
  "cleanedConfig config = JObj (
     [(''sound'', globalSound config),
      (''notification'', globalNotification config),
      (''timeout'', JNum (timeout config)),
      (''showProjectName'', showProjectName config),
      (''showIcon'', showIcon config),
      (''notificationSystem'', JStr (notificationSystem config))]
     @ (if nestedEvents config = [] then [] else [(''events'', JObj (nestedEvents config))])
     @ (if enabled (command config) \<or> path (command config) \<noteq> []
        then [(''command'', commandJson (command config))] else [])
     @ [(''messages'', messagesJson (messages config))])"

text \<open>
  What the process can change: the configuration file, and the module's \<open>DEFAULT_CONFIG\<close>
  object, which \<open>loadConfig\<close> hands out uncopied when it falls back.
\<close>

record world =
  configFile :: "fileContent option"
  defaultObject :: NotifierConfig

definition initialWorld :: "fileContent option \<Rightarrow> world" where
  "initialWorld f = \<lparr>configFile = f, defaultObject = DEFAULT_CONFIG\<rparr>"

text \<open>The document that the file holds after \<open>saveConfig(config)\<close>.\<close>

definition saved :: "NotifierConfig \<Rightarrow> json" where
  "saved config = stringify (cleanedConfig config)"

definition saveConfig :: "NotifierConfig \<Rightarrow> world \<Rightarrow> world" where
  "saveConfig config w = w\<lparr>configFile := Some (Parses (saved config))\<rparr>"

text \<open>The \<open>sound\<close> entry of the file, when the file holds a document.\<close>

definition persistedSound :: "world \<Rightarrow> json option" where
  "persistedSound w =
     (case configFile w of Some (Parses userConfig) \<Rightarrow> propOf userConfig ''sound'' | _ \<Rightarrow> None)"

definition load :: "world \<Rightarrow> NotifierConfig" where
  "load w = loadConfig (defaultObject w) (configFile w)"

section \<open>The sound toggle (sound-toggle.ts)\<close>

record SoundToggleResult =
  success :: bool
  message :: string
  soundEnabled :: "json option"

definition validateConfigExists :: "world \<Rightarrow> bool" where
  "validateConfigExists w = (configFile w \<noteq> None)"

definition getSoundStatus :: "world \<Rightarrow> json" where
  "getSoundStatus w = globalSound (load w)"

definition notFound :: SoundToggleResult where
  "notFound = \<lparr>success = False,
     message = ''Config file not found. Please run the notifier plugin first to create the default config.'',
     soundEnabled = None\<rparr>"

text \<open>
  \<open>const config = loadConfig(); config.sound = v\<close>: when \<open>loadConfig\<close> fell back, \<open>config\<close>
  is the \<open>DEFAULT_CONFIG\<close> object and the assignment changes it for the rest of the
  process.
\<close>

definition assignSound :: "json \<Rightarrow> world \<Rightarrow> NotifierConfig \<times> world" where
  "assignSound v w =
     (let config = (load w)\<lparr>globalSound := v\<rparr>
      in (config, if loadShared (defaultObject w) (configFile w)
                  then w\<lparr>defaultObject := config\<rparr> else w))"

definition enableSound :: "world \<Rightarrow> SoundToggleResult \<times> world" where
  "enableSound w =
     (if \<not> validateConfigExists w then (notFound, w)
      else let (config, w1) = assignSound (JBool True) w
           in (\<lparr>success = True, message = ''Sounds have been enabled.'',
                soundEnabled = Some (JBool True)\<rparr>, saveConfig config w1))"

definition disableSound :: "world \<Rightarrow> SoundToggleResult \<times> world" where
  "disableSound w =
     (if \<not> validateConfigExists w then (notFound, w)
      else let (config, w1) = assignSound (JBool False) w
           in (\<lparr>success = True, message = ''Sounds have been disabled.'',
                soundEnabled = Some (JBool False)\<rparr>, saveConfig config w1))"

definition toggleSound :: "world \<Rightarrow> SoundToggleResult \<times> world" where
  "toggleSound w =
     (if \<not> validateConfigExists w then (notFound, w)
      else let (config, w1) = assignSound (JBool (\<not> truthy (globalSound (load w)))) w
           in (\<lparr>success = True,
                message = (if truthy (globalSound config) then ''Sounds have been enabled.''
                           else ''Sounds have been disabled.''),
                soundEnabled = Some (globalSound config)\<rparr>, saveConfig config w1))"

definition soundStatus :: "world \<Rightarrow> SoundToggleResult \<times> world" where
  "soundStatus w =
     (if \<not> validateConfigExists w then (notFound, w)
      else let isEnabled = globalSound (load w)
           in (\<lparr>success = True,
                message = (if truthy isEnabled then ''Sounds are currently enabled.''
                           else ''Sounds are currently disabled.''),
                soundEnabled = Some isEnabled\<rparr>, w))"

definition executeSoundToggle :: "string \<Rightarrow> world \<Rightarrow> SoundToggleResult \<times> world" where
  "executeSoundToggle action w =
     (if action = ''toggle'' then toggleSound w
      else if action = ''enable'' then enableSound w
      else if action = ''disable'' then disableSound w
      else if action = ''status'' then soundStatus w
      else (\<lparr>success = False, message = ''Unknown action: '' @ action, soundEnabled = None\<rparr>, w))"

section \<open>The notifier (notify.ts)\<close>

text \<open>
  The call \<open>platformNotifier.notify(notificationOptions, ...)\<close>: title, message, timeout,
  and the field \<open>sound\<close>, which is set (to false) on Darwin only.
\<close>

datatype notifyCall = NotifyCall string string number "bool option"

text \<open>
  \<open>sendNotification\<close> as notify.ts declares it, with the two parameters \<open>message\<close> and
  \<open>timeout\<close> (the dispatcher of index.ts passes a title as well; its call is recorded as
  made, in \<open>handleEvent\<close> below). \<open>osType\<close> is \<open>os.type()\<close>, \<open>now\<close> is \<open>Date.now()\<close> in
  milliseconds, and the state is the table \<open>lastNotificationTime\<close>, as the map of the
  object's own properties. The result is the call made to the platform notifier, if any,
  and the table afterwards.

  The table is a plain object, not a map. Reading a key that the object does not own
  gives a property of \<open>Object.prototype\<close> when there is one of that name; it is truthy,
  and \<open>now\<close> minus it is NaN, so the guard is false as it is for an absent key. The
  assignment then creates an own property, except for the key \<open>__proto__\<close>: assigning a
  number to it stores nothing, so this one text is never stamped and never debounced. The
  guard \<open>lastNotificationTime[message] && ...\<close> tests the stored stamp for truthiness,
  so a stored stamp of 0 counts as no stamp.
\<close>

definition DEBOUNCE_MS :: int where
  "DEBOUNCE_MS = 1000"

definition NOTIFICATION_TITLE :: string where
  "NOTIFICATION_TITLE = ''OpenCode''"

definition debounced :: "(string \<rightharpoonup> int) \<Rightarrow> string \<Rightarrow> int \<Rightarrow> bool" where
  "debounced lastNotificationTime messageText now =
     (if messageText = ''__proto__'' then False
      else case lastNotificationTime messageText of
             None \<Rightarrow> False
           | Some t \<Rightarrow> t \<noteq> 0 \<and> now - t < DEBOUNCE_MS)"

text \<open>\<open>lastNotificationTime[message] = now\<close>.\<close>

definition stamp :: "(string \<rightharpoonup> int) \<Rightarrow> string \<Rightarrow> int \<Rightarrow> (string \<rightharpoonup> int)" where
  "stamp lastNotificationTime messageText now =
     (if messageText = ''__proto__'' then lastNotificationTime
      else lastNotificationTime(messageText \<mapsto> now))"

definition sendNotification ::
  "string \<Rightarrow> string \<Rightarrow> number \<Rightarrow> int \<Rightarrow> (string \<rightharpoonup> int) \<Rightarrow> notifyCall option \<times> (string \<rightharpoonup> int)" where
  "sendNotification osType messageText timeoutSecs now lastNotificationTime =
     (if debounced lastNotificationTime messageText now then (None, lastNotificationTime)
      else (Some (NotifyCall NOTIFICATION_TITLE messageText timeoutSecs
                    (if osType = ''Darwin'' then Some False else None)),
            stamp lastNotificationTime messageText now))"

text \<open>A run of calls, each with its message, timeout and clock reading; the calls made to the notifier, in order.\<close>

fun sendAll ::
  "string \<Rightarrow> (string \<times> number \<times> int) list \<Rightarrow> (string \<rightharpoonup> int) \<Rightarrow> notifyCall option list \<times> (string \<rightharpoonup> int)" where
  "sendAll osType [] tbl = ([], tbl)"
| "sendAll osType ((messageText, timeoutSecs, now) # calls) tbl =
     (let (r, tbl1) = sendNotification osType messageText timeoutSecs now tbl;
          (rs, tbl2) = sendAll osType calls tbl1
      in (r # rs, tbl2))"

section \<open>Terminal focus (index.ts)\<close>

text \<open>
  Strings are lists of 8-bit characters, and \<open>toLowerCase\<close> maps the letters A to Z to
  a to z: the model is exact on ASCII names. JavaScript also lowercases letters outside
  ASCII, but it turns none of the 8-bit range into a letter a to z or a digit, so
  \<open>normalizeAppName\<close>, which keeps only a to z and 0 to 9, is exact on all of that range.
\<close>

definition lowerChar :: "char \<Rightarrow> char" where
  "lowerChar c =
     (case map_of (zip ''ABCDEFGHIJKLMNOPQRSTUVWXYZ'' ''abcdefghijklmnopqrstuvwxyz'') c of
        Some l \<Rightarrow> l
      | None \<Rightarrow> c)"

definition toLowerCase :: "string \<Rightarrow> string" where
  "toLowerCase s = map lowerChar s"

definition alnum :: "char \<Rightarrow> bool" where
  "alnum c = (c \<in> set ''abcdefghijklmnopqrstuvwxyz0123456789'')"

definition normalizeAppName :: "string \<Rightarrow> string" where
  "normalizeAppName v = filter alnum (toLowerCase v)"

text \<open>\<open>s.startsWith(t)\<close> and \<open>s.includes(t)\<close>.\<close>

fun startsWith :: "string \<Rightarrow> string \<Rightarrow> bool" where
  "startsWith s [] = True"
| "startsWith [] (c # t) = False"
| "startsWith (d # s) (c # t) = (d = c \<and> startsWith s t)"

fun includesStr :: "string \<Rightarrow> string \<Rightarrow> bool" where
  "includesStr [] t = (t = [])"
| "includesStr (c # s) t = (startsWith (c # s) t \<or> includesStr s t)"

definition matchesTerminal :: "string \<Rightarrow> string \<Rightarrow> bool" where
  "matchesTerminal frontmost terminal =
     (let frontNormalized = normalizeAppName frontmost;
          terminalNormalized = normalizeAppName terminal
      in if frontNormalized = [] \<or> terminalNormalized = [] then False
         else includesStr frontNormalized terminalNormalized \<or> includesStr terminalNormalized frontNormalized)"

definition TERMINAL_PROCESS_NAMES :: "(string \<times> string) list" where
  "TERMINAL_PROCESS_NAMES = [
     (''ghostty'', ''Ghostty''),
     (''kitty'', ''kitty''),
     (''iterm'', ''iTerm2''),
     (''iterm2'', ''iTerm2''),
     (''wezterm'', ''WezTerm''),
     (''alacritty'', ''Alacritty''),
     (''terminal'', ''Terminal''),
     (''apple_terminal'', ''Terminal''),
     (''hyper'', ''Hyper''),
     (''warp'', ''Warp''),
     (''vscode'', ''Code''),
     (''vscode-insiders'', ''Code - Insiders'')]"

text \<open>
  \<open>getTerminalProcessName\<close>: \<open>TERMINAL_PROCESS_NAMES[terminalName.toLowerCase()] ?? terminalName\<close>.
  The table is a plain object. For the keys \<open>constructor\<close> and \<open>__proto__\<close>, the only
  property names of \<open>Object.prototype\<close> without an upper-case letter, the lookup gives an
  inherited function or object; it is not nullish, so the function returns it, and the
  result is not a string (\<open>None\<close>).
\<close>

definition getTerminalProcessName :: "string \<Rightarrow> string option" where
  "getTerminalProcessName terminalName =
     (let key = toLowerCase terminalName
      in if key = ''constructor'' \<or> key = ''__proto__'' then None
         else case map_of TERMINAL_PROCESS_NAMES key of
                Some n \<Rightarrow> Some n
              | None \<Rightarrow> Some terminalName)"

text \<open>
  What \<open>isTerminalFocused\<close> reads from its surroundings: \<open>process.platform\<close>, the result
  of \<open>detectTerminal\<close>, and what \<open>runExecCommand\<close> resolves to for \<open>osascript\<close> and for
  \<open>powershell\<close> (the trimmed output, or null after an error).
\<close>

record env =
  platform :: string
  detectedTerminal :: "string option"
  osascriptOutput :: "string option"
  powershellOutput :: "string option"

definition getFrontmostAppMac :: "env \<Rightarrow> string option" where
  "getFrontmostAppMac env = (if platform env \<noteq> ''darwin'' then None else osascriptOutput env)"

definition getFrontmostProcessWindows :: "env \<Rightarrow> string option" where
  "getFrontmostProcessWindows env = (if platform env \<noteq> ''win32'' then None else powershellOutput env)"

text \<open>
  \<open>isTerminalFocused\<close>. On macOS, with a frontmost application name at hand, the function
  calls \<open>processName.toLowerCase()\<close>, which throws a TypeError when \<open>processName\<close> is not
  a string.
\<close>

definition isTerminalFocused :: "env \<Rightarrow> error + bool" where
  "isTerminalFocused env =
     (case detectedTerminal env of
        None \<Rightarrow> Inr False
      | Some terminalName \<Rightarrow>
          if terminalName = [] then Inr False
          else if platform env = ''darwin'' then
            (case getFrontmostAppMac env of
               None \<Rightarrow> Inr False
             | Some frontmost \<Rightarrow>
                 if frontmost = [] then Inr False
                 else (case getTerminalProcessName terminalName of
                         None \<Rightarrow> Inl TypeError
                       | Some processName \<Rightarrow>
                           Inr (toLowerCase frontmost = toLowerCase processName)))
          else if platform env = ''win32'' then
            (case getFrontmostProcessWindows env of
               None \<Rightarrow> Inr False
             | Some frontmostProcess \<Rightarrow>
                 Inr (frontmostProcess \<noteq> [] \<and> matchesTerminal frontmostProcess terminalName))
          else Inr False)"

section \<open>The event dispatcher (index.ts)\<close>

text \<open>
  \<open>handleEvent\<close> reads \<open>config.suppressWhenFocused\<close>, a field that the interface
  \<open>NotifierConfig\<close> of config.ts does not declare and \<open>loadConfig\<close> does not set; the
  dispatcher's configuration is the record extended by it (\<open>None\<close> when the object has no
  such field).
\<close>

record DispatchConfig = NotifierConfig +
  suppressWhenFocused :: "json option"

text \<open>The calls that \<open>handleEvent\<close> makes to its collaborators.\<close>

datatype action =
    SendNotification string json number
  | PlaySound EventType json
  | RunCommand EventType json

definition getNotificationTitle :: "'a NotifierConfig_scheme \<Rightarrow> string option \<Rightarrow> string" where
  "getNotificationTitle config projectName =
     (case projectName of
        Some p \<Rightarrow> if truthy (showProjectName config) \<and> p \<noteq> [] then ''OpenCode ('' @ p @ '')'' else ''OpenCode''
      | None \<Rightarrow> ''OpenCode'')"

text \<open>
  \<open>shouldSkipCommand\<close> of \<open>handleEvent\<close>; \<open>elapsedSeconds\<close> is \<open>None\<close> for null and
  undefined.
\<close>

definition shouldSkipCommand :: "'a NotifierConfig_scheme \<Rightarrow> number option \<Rightarrow> bool" where
  "shouldSkipCommand config elapsedSeconds =
     (case minDuration (command config) of
        None \<Rightarrow> False
      | Some m \<Rightarrow>
          isFinite m \<and> gtZero m \<and>
          (case elapsedSeconds of
             None \<Rightarrow> False
           | Some s \<Rightarrow> isFinite s \<and> numLess s m))"

text \<open>
  \<open>handleEvent\<close>, as the list of calls it makes, in order. \<open>soundAndCommand\<close> is the part
  after the notification block. Inside the notification block, when
  \<open>config.suppressWhenFocused\<close> is truthy, the function awaits \<open>isTerminalFocused()\<close>: if
  that throws, so does \<open>handleEvent\<close>, before any call is made; if it resolves to true,
  the function returns at once.
\<close>

definition soundAndCommand ::
  "'a NotifierConfig_scheme \<Rightarrow> EventType \<Rightarrow> json \<Rightarrow> number option \<Rightarrow> action list" where
  "soundAndCommand config eventType messageText elapsedSeconds =
     (if truthy (isEventSoundEnabled config eventType)
      then [PlaySound eventType (getSoundPath config eventType)]
      else [])
     @ (if \<not> shouldSkipCommand config elapsedSeconds
        then [RunCommand eventType messageText]
        else [])"

definition handleEvent ::
  "DispatchConfig \<Rightarrow> env \<Rightarrow> EventType \<Rightarrow> string option \<Rightarrow> number option \<Rightarrow> error + action list" where
  "handleEvent config env eventType projectName elapsedSeconds =
     (let messageText = getMessage config eventType
      in if truthy (isEventNotificationEnabled config eventType) then
           (if (case suppressWhenFocused config of None \<Rightarrow> False | Some flag \<Rightarrow> truthy flag) then
              (case isTerminalFocused env of
                 Inl e \<Rightarrow> Inl e
               | Inr shouldSuppress \<Rightarrow>
                   if shouldSuppress then Inr []
                   else Inr (SendNotification (getNotificationTitle config projectName) messageText
                               (timeout config)
                             # soundAndCommand config eventType messageText elapsedSeconds))
            else Inr (SendNotification (getNotificationTitle config projectName) messageText
                        (timeout config)
                      # soundAndCommand config eventType messageText elapsedSeconds))
         else Inr (soundAndCommand config eventType messageText elapsedSeconds))"

text \<open>
  The calls that a run of \<open>handleEvent\<close> has made: none when it threw, since its only
  throw comes before the first call.
\<close>

fun dispatched :: "error + action list \<Rightarrow> action list" where
  "dispatched (Inl e) = []"
| "dispatched (Inr calls) = calls"

text \<open>
  Whether \<open>handleEvent\<close> consults \<open>isTerminalFocused\<close>: the notification of the event is
  enabled and \<open>suppressWhenFocused\<close> is truthy.
\<close>

definition focusConsulted :: "DispatchConfig \<Rightarrow> EventType \<Rightarrow> bool" where
  "focusConsulted config eventType =
     (truthy (isEventNotificationEnabled config eventType) \<and>
      (case suppressWhenFocused config of None \<Rightarrow> False | Some flag \<Rightarrow> truthy flag))"

text \<open>\<open>getSessionIDFromEvent\<close>: \<open>event?.properties?.sessionID\<close> when it is a non-empty string.\<close>

definition getSessionIDFromEvent :: "json option \<Rightarrow> string option" where
  "getSessionIDFromEvent event =
     (case optChain (optChain event ''properties'') ''sessionID'' of
        Some (JStr sessionID) \<Rightarrow> if sessionID \<noteq> [] then Some sessionID else None
      | _ \<Rightarrow> None)"

text \<open>
  The host's answer to \<open>client.session.messages\<close>: the call fails (or reading the
  answer throws, which ends in the same \<open>catch\<close>), or it returns a response whose
  \<open>data\<close> may be undefined. Of each message the code reads \<open>info.role\<close> and
  \<open>info.time?.created\<close> (\<open>None\<close> when it is not a number).
\<close>

record messageInfo =
  role :: string
  created :: "number option"

datatype hostReply = Failed | Response "messageInfo list option"

fun lastUserMessage :: "messageInfo list \<Rightarrow> number option \<Rightarrow> number option" where
  "lastUserMessage [] lastUserMessageTime = lastUserMessageTime"
| "lastUserMessage (info # msgs) lastUserMessageTime =
     lastUserMessage msgs
       (if role info = ''user'' then
          (case created info of
             None \<Rightarrow> lastUserMessageTime
           | Some c \<Rightarrow>
               (case lastUserMessageTime of
                  None \<Rightarrow> Some c
                | Some l \<Rightarrow> if numLess l c then Some c else Some l))
        else lastUserMessageTime)"

text \<open>The messages that the loop of \<open>getElapsedSinceLastPrompt\<close> takes into account.\<close>

definition userMessages :: "messageInfo list \<Rightarrow> messageInfo list" where
  "userMessages msgs = filter (\<lambda>info. role info = ''user'' \<and> created info \<noteq> None) msgs"

text \<open>
  \<open>getElapsedSinceLastPrompt\<close>. Its result \<open>(Date.now() - t) / 1000\<close> is computed in double
  arithmetic at the time of the call; the arithmetic is not modelled, and the function
  \<open>secondsSince\<close> that maps \<open>t\<close> to that result is a parameter.
\<close>

definition getElapsedSinceLastPrompt ::
  "(string \<Rightarrow> hostReply) \<Rightarrow> (number \<Rightarrow> number) \<Rightarrow> string \<Rightarrow> number option" where
  "getElapsedSinceLastPrompt client secondsSince sessionID =
     (case client sessionID of
        Failed \<Rightarrow> None
      | Response data \<Rightarrow>
          (case lastUserMessage (case data of None \<Rightarrow> [] | Some ms \<Rightarrow> ms) None of
             None \<Rightarrow> None
           | Some t \<Rightarrow> Some (secondsSince t)))"

definition shouldLookupElapsed :: "'a NotifierConfig_scheme \<Rightarrow> bool" where
  "shouldLookupElapsed config =
     (enabled (command config) \<and> path (command config) \<noteq> [] \<and>
      (case minDuration (command config) of None \<Rightarrow> False | Some m \<Rightarrow> isFinite m \<and> gtZero m))"

definition elapsedFor ::
  "(string \<Rightarrow> hostReply) \<Rightarrow> (number \<Rightarrow> number) \<Rightarrow> 'a NotifierConfig_scheme \<Rightarrow> json option \<Rightarrow> number option" where
  "elapsedFor client secondsSince config event =
     (if shouldLookupElapsed config then
        (case getSessionIDFromEvent event of
           None \<Rightarrow> None
         | Some sessionID \<Rightarrow> getElapsedSinceLastPrompt client secondsSince sessionID)
      else None)"

definition handleEventWithElapsedTime ::
  "(string \<Rightarrow> hostReply) \<Rightarrow> (number \<Rightarrow> number) \<Rightarrow> DispatchConfig \<Rightarrow> env \<Rightarrow> EventType \<Rightarrow>
     string option \<Rightarrow> json option \<Rightarrow> error + action list" where
  "handleEventWithElapsedTime client secondsSince config env eventType projectName event =
     handleEvent config env eventType projectName (elapsedFor client secondsSince config event)"

text \<open>
  What every configuration returned by \<open>loadConfig\<close> for a stable document satisfies: no
  flag and no message is null, the timeout is positive and finite, and \<open>minDuration\<close> is
  0 or positive and finite.
\<close>

definition loadedOK :: "NotifierConfig \<Rightarrow> bool" where
  "loadedOK c =
     (stable (globalSound c) \<and> globalSound c \<noteq> JNull \<and>
      stable (globalNotification c) \<and> globalNotification c \<noteq> JNull \<and>
      stable (showProjectName c) \<and> showProjectName c \<noteq> JNull \<and>
      stable (showIcon c) \<and> showIcon c \<noteq> JNull \<and>
      isFinite (timeout c) \<and> gtZero (timeout c) \<and>
      (notificationSystem c = ''osascript'' \<or> notificationSystem c = ''node-notifier'') \<and>
      (\<exists>m. minDuration (command c) = Some m \<and> isFinite m \<and> (gtZero m \<or> m = Finite 0)) \<and>
      (\<forall>e. stable (sound (events c e)) \<and> sound (events c e) \<noteq> JNull \<and>
           stable (notification (events c e)) \<and> notification (events c e) \<noteq> JNull \<and>
           stable (messages c e) \<and> messages c e \<noteq> JNull))"

section \<open>Loading\<close>

lemma throws_parseEventConfig:
  "throws (parseEventConfig u d) \<longleftrightarrow> u = Some JNull"
  by (cases "(u, d)" rule: parseEventConfig.cases) simp_all

lemma loadBody_throws:
  "throws (loadBody D u) \<longleftrightarrow> u = JNull \<or> (\<exists>e. userEvent u e = Some JNull)"
proof -
  have ex: "(\<exists>e. P e) \<longleftrightarrow> P permission \<or> P complete \<or> P subagent_complete \<or> P error \<or> P question" for P
    by (metis EventType.exhaust)
  show ?thesis
    unfolding loadBody_def Let_def ex [of "\<lambda>e. userEvent u e = Some JNull"]
    by (simp add: throws_parseEventConfig)
qed

lemma not_throws_Inr: "\<not> throws x \<Longrightarrow> \<exists>c. x = Inr c"
  by (cases x) simp_all

lemma loadBody_events:
  assumes "loadBody D u = Inr c"
  shows "parseEventConfig (userEvent u e) (eventDefault D u e) = Inr (events c e)"
proof -
  have "\<not> throws (loadBody D u)" using assms by simp
  then have "userEvent u e \<noteq> Some JNull" by (simp add: loadBody_throws)
  then have "\<not> throws (parseEventConfig (userEvent u e) (eventDefault D u e))"
    by (simp add: throws_parseEventConfig)
  then obtain c' where c': "parseEventConfig (userEvent u e) (eventDefault D u e) = Inr c'"
    using not_throws_Inr by blast
  have "events c e = (case parseEventConfig (userEvent u e) (eventDefault D u e) of Inr x \<Rightarrow> x | Inl x \<Rightarrow> events D e)"
    using assms unfolding loadBody_def Let_def eventDefault_def
    by (auto split: if_splits)
  with c' show ?thesis by simp
qed

text \<open>
  Claim C7. When the file supplies no entry for \<open>subagent_complete\<close> (neither under
  \<open>events\<close> nor as a top-level key), or there is no usable file at all, the loaded
  configuration has \<open>events.subagent_complete = {sound: false, notification: false}\<close>,
  whatever the global flags are.
\<close>

theorem subagent_complete_default:
  assumes "\<forall>userConfig. f = Some (Parses userConfig) \<longrightarrow> userEvent userConfig subagent_complete = None"
  shows "events (loadConfig DEFAULT_CONFIG f) subagent_complete = \<lparr>sound = JBool False, notification = JBool False\<rparr>"
proof (cases f)
  case None
  then show ?thesis by (simp add: DEFAULT_CONFIG_def)
next
  case (Some fc)
  show ?thesis
  proof (cases fc)
    case Unparsable
    with Some show ?thesis by (simp add: DEFAULT_CONFIG_def)
  next
    case (Parses u)
    with Some assms have ue: "userEvent u subagent_complete = None" by simp
    show ?thesis
    proof (cases "loadBody DEFAULT_CONFIG u")
      case (Inl x)
      with Some Parses show ?thesis by (simp add: DEFAULT_CONFIG_def)
    next
      case (Inr c)
      from loadBody_events [OF Inr, of subagent_complete] ue
      have "events c subagent_complete = \<lparr>sound = JBool False, notification = JBool False\<rparr>" by (simp add: eventDefault_def)
      with Some Parses Inr show ?thesis by simp
    qed
  qed
qed


theorem subagent_complete_default_witness:
  "userEvent (JObj [(''sound'', JBool True), (''notification'', JBool True)]) subagent_complete = None
   \<and> events (loadConfig DEFAULT_CONFIG (Some (Parses (JObj [(''sound'', JBool True), (''notification'', JBool True)]))))
        subagent_complete = \<lparr>sound = JBool False, notification = JBool False\<rparr>
   \<and> globalSound (loadConfig DEFAULT_CONFIG (Some (Parses (JObj [(''sound'', JBool True), (''notification'', JBool True)])))) = JBool True
   \<and> globalNotification (loadConfig DEFAULT_CONFIG (Some (Parses (JObj [(''sound'', JBool True), (''notification'', JBool True)])))) = JBool True"
proof -
  let ?u = "JObj [(''sound'', JBool True), (''notification'', JBool True)]"
  have u: "userEvent ?u subagent_complete = None"
    by (simp add: userEvent_def)
  then have h: "\<forall>userConfig. Some (Parses ?u) = Some (Parses userConfig)
      \<longrightarrow> userEvent userConfig subagent_complete = None"
    by simp
  have g: "globalSound (loadConfig DEFAULT_CONFIG (Some (Parses ?u))) = JBool True"
          "globalNotification (loadConfig DEFAULT_CONFIG (Some (Parses ?u))) = JBool True"
    by (simp_all add: loadBody_def userEvent_def Let_def)
  from u g subagent_complete_default [OF h] show ?thesis by blast
qed

text \<open>
  Claim C6, amended. In a file without a null event entry, a per-event entry that is the
  boolean shorthand \<open>b\<close> resolves to \<open>{sound: b, notification: b}\<close> for that event,
  whatever the global \<open>sound\<close> flag is, which is loaded unchanged beside it. The claim's
  case is \<open>complete: false\<close> with \<open>sound: true\<close>.
\<close>

theorem event_shorthand_overrides_global:
  assumes "userEvent userConfig e = Some (JBool b)"
      and "\<forall>e'. userEvent userConfig e' \<noteq> Some JNull"
  shows "events (loadConfig D (Some (Parses userConfig))) e = \<lparr>sound = JBool b, notification = JBool b\<rparr>
         \<and> globalSound (loadConfig D (Some (Parses userConfig))) = nullishOr (propOf userConfig ''sound'') (globalSound D)"
proof -
  have "userConfig \<noteq> JNull" using assms(1) by (auto simp: userEvent_def)
  with assms(2) have "\<not> throws (loadBody D userConfig)" by (simp add: loadBody_throws)
  then obtain c where c: "loadBody D userConfig = Inr c" using not_throws_Inr by blast
  from loadBody_events [OF c, of e] assms(1)
  have "events c e = \<lparr>sound = JBool b, notification = JBool b\<rparr>" by simp
  moreover have "globalSound c = nullishOr (propOf userConfig ''sound'') (globalSound D)"
    using c unfolding loadBody_def Let_def by (auto split: if_splits)
  ultimately show ?thesis using c by simp
qed

theorem event_shorthand_overrides_global_witness:
  "userEvent (JObj [(''sound'', JBool True), (''events'', JObj [(''complete'', JBool False)])]) complete = Some (JBool False)
   \<and> (\<forall>e'. userEvent (JObj [(''sound'', JBool True), (''events'', JObj [(''complete'', JBool False)])]) e' \<noteq> Some JNull)
   \<and> events (loadConfig DEFAULT_CONFIG (Some (Parses (JObj [(''sound'', JBool True), (''events'', JObj [(''complete'', JBool False)])])))) complete
       = \<lparr>sound = JBool False, notification = JBool False\<rparr>
   \<and> globalSound (loadConfig DEFAULT_CONFIG (Some (Parses (JObj [(''sound'', JBool True), (''events'', JObj [(''complete'', JBool False)])])))) = JBool True"
proof -
  let ?u = "JObj [(''sound'', JBool True), (''events'', JObj [(''complete'', JBool False)])]"
  have h1: "userEvent ?u complete = Some (JBool False)" by (simp add: userEvent_def)
  have h2: "\<forall>e'. userEvent ?u e' \<noteq> Some JNull"
  proof
    fix e' show "userEvent ?u e' \<noteq> Some JNull" by (cases e') (simp_all add: userEvent_def)
  qed
  from event_shorthand_overrides_global [OF h1 h2, of DEFAULT_CONFIG] h1 h2
  show ?thesis by simp
qed

text \<open>
  Claim C6 as stated fails on \<open>{"sound": true, "events": {"complete": false}, "error": null}\<close>:
  the null entry makes \<open>parseEventConfig\<close> throw inside the \<open>try\<close> block, \<open>loadConfig\<close>
  returns the defaults, and \<open>events.complete.sound\<close> is true.
\<close>

theorem event_shorthand_lost_on_null_entry:
  "userEvent (JObj [(''sound'', JBool True), (''events'', JObj [(''complete'', JBool False)]),
                    (''error'', JNull)]) complete = Some (JBool False)
   \<and> propOf (JObj [(''sound'', JBool True), (''events'', JObj [(''complete'', JBool False)]),
                    (''error'', JNull)]) ''sound'' = Some (JBool True)
   \<and> sound (events (loadConfig DEFAULT_CONFIG (Some (Parses
        (JObj [(''sound'', JBool True), (''events'', JObj [(''complete'', JBool False)]),
               (''error'', JNull)])))) complete) = JBool True"
  by (simp add: userEvent_def loadBody_def Let_def DEFAULT_CONFIG_def DEFAULT_EVENT_CONFIG_def)

text \<open>
  Claim C4. The check of \<open>timeout\<close> has no \<open>Number.isFinite\<close>: a file with
  \<open>"timeout": 1e999\<close>, which \<open>JSON.parse\<close> reads as \<open>Infinity\<close>, loads with an infinite
  timeout instead of the default 5. The same value for \<open>command.minDuration\<close>, whose check
  has the test, gives the default 0.
\<close>

theorem timeout_infinity_accepted:
  "timeout (loadConfig DEFAULT_CONFIG (Some (Parses (JObj [(''timeout'', JNum PosInf)])))) = PosInf
   \<and> \<not> isFinite (timeout (loadConfig DEFAULT_CONFIG (Some (Parses (JObj [(''timeout'', JNum PosInf)])))))
   \<and> minDuration (command (loadConfig DEFAULT_CONFIG
        (Some (Parses (JObj [(''command'', JObj [(''minDuration'', JNum PosInf)])]))))) = Some (Finite 0)"
  by (simp add: loadBody_def userEvent_def Let_def)

lemma loadBody_fields:
  assumes "loadBody D u = Inr c"
  shows "globalSound c = nullishOr (propOf u ''sound'') (globalSound D)"
    and "globalNotification c = nullishOr (propOf u ''notification'') (globalNotification D)"
    and "timeout c = loadTimeout (propOf u ''timeout'') (timeout D)"
    and "showProjectName c = nullishOr (propOf u ''showProjectName'') (showProjectName D)"
    and "showIcon c = nullishOr (propOf u ''showIcon'') (showIcon D)"
    and "notificationSystem c = loadNotificationSystem (propOf u ''notificationSystem'')"
    and "enabled (command c) = loadEnabled (propOf (nullishOr (propOf u ''command'') (JObj [])) ''enabled'') (enabled (command D))"
    and "path (command c) = loadPath (propOf (nullishOr (propOf u ''command'') (JObj [])) ''path'') (path (command D))"
    and "args (command c) = commandArgs (propOf (nullishOr (propOf u ''command'') (JObj [])) ''args'')"
    and "minDuration (command c) = Some (commandMinDuration (propOf (nullishOr (propOf u ''command'') (JObj [])) ''minDuration''))"
    and "messages c e = nullishOr (optChain (propOf u ''messages'') (eventKey e)) (messages D e)"
    and "sounds c e = nullishOr (optChain (propOf u ''sounds'') (eventKey e)) (sounds D e)"
  using assms unfolding loadBody_def Let_def
  by (auto split: if_splits)

section \<open>Saving and loading again\<close>

lemma map_of_map_prod: "map_of (map (map_prod id f) kvs) k = map_option f (map_of kvs k)"
  by (induction kvs) auto

lemma propOf_stringify: "propOf (stringify j) k = map_option stringify (propOf j k)"
  by (cases j) (simp_all add: rev_map map_of_map_prod)

lemma map_of_rev_distinct: "distinct (map fst kvs) \<Longrightarrow> map_of (rev kvs) k = map_of kvs k"
proof (induction kvs)
  case Nil
  show ?case by simp
next
  case (Cons p kvs)
  obtain k' v where p: "p = (k', v)" by (cases p)
  from Cons.prems p have n: "map_of (rev kvs) k' = None"
    by (simp add: map_of_eq_None_iff)
  from Cons p n show ?case by (auto simp: map_add_def split: option.splits)
qed

lemma propOf_distinct: "distinct (map fst kvs) \<Longrightarrow> propOf (JObj kvs) k = map_of kvs k"
  by (simp add: map_of_rev_distinct)

lemma fst_defined: "fst ` set (defined kvs) \<subseteq> fst ` set kvs"
  by (induction kvs rule: defined.induct) auto

lemma distinct_defined: "distinct (map fst kvs) \<Longrightarrow> distinct (map fst (defined kvs))"
  using fst_defined by (induction kvs rule: defined.induct) auto

lemma map_fixed: "map f xs = xs \<Longrightarrow> x \<in> set xs \<Longrightarrow> f x = x"
  by (induction xs) auto

lemma stable_propOf:
  assumes "stable j" and "propOf j k = Some v"
  shows "stable v"
proof (cases j)
  case (JObj kvs)
  with assms(1) have m: "map (map_prod id stringify) kvs = kvs" by (simp add: stable_def)
  from JObj assms(2) have "map_of (rev kvs) k = Some v" by simp
  then have "(k, v) \<in> set (rev kvs)" by (rule map_of_SomeD)
  then have "(k, v) \<in> set kvs" by simp
  from map_fixed [OF m this] show ?thesis by (simp add: stable_def)
qed (use assms in simp_all)

lemma map_of_defined:
  "distinct (map fst kvs) \<Longrightarrow>
   map_of (defined kvs) k = (case map_of kvs k of None \<Rightarrow> None | Some v \<Rightarrow> v)"
proof (induction kvs rule: defined.induct)
  case 1
  show ?case by simp
next
  case (2 k' kvs)
  then show ?case by (auto simp: map_of_eq_None_iff [symmetric] split: option.splits)
next
  case (3 k' v kvs)
  then show ?case by auto
qed

lemma eventKey_inj: "eventKey e = eventKey e' \<longleftrightarrow> e = e'"
  by (cases e; cases e') simp_all



lemma nestedEvents_eq:
  "nestedEvents c = defined (map (\<lambda>e. (eventKey e, savedEvent (savedSame c e) (events c e) (savedDefault c e)))
     [permission, complete, subagent_complete, error, question])"
  by (simp add: nestedEvents_def savedDefault_def savedSame_def Let_def)

lemma nestedEvents_map_of:
  "map_of (nestedEvents c) k =
     (case map_of (map (\<lambda>e. (eventKey e, savedEvent (savedSame c e) (events c e) (savedDefault c e)))
        [permission, complete, subagent_complete, error, question]) k of None \<Rightarrow> None | Some v \<Rightarrow> v)"
  unfolding nestedEvents_eq by (rule map_of_defined) simp

lemma nestedEvents_lookup:
  "map_of (nestedEvents c) (eventKey e) = savedEvent (savedSame c e) (events c e) (savedDefault c e)"
  unfolding nestedEvents_map_of by (cases e) simp_all

lemma nestedEvents_distinct: "distinct (map fst (nestedEvents c))"
  unfolding nestedEvents_eq by (rule distinct_defined) simp

lemma nestedEvents_propOf:
  "propOf (JObj (nestedEvents c)) (eventKey e)
     = savedEvent (savedSame c e) (events c e) (savedDefault c e)"
  by (simp only: propOf_distinct [OF nestedEvents_distinct] nestedEvents_lookup)


lemma cleaned_globals:
  "propOf (cleanedConfig c) ''sound'' = Some (globalSound c)"
  "propOf (cleanedConfig c) ''notification'' = Some (globalNotification c)"
  "propOf (cleanedConfig c) ''timeout'' = Some (JNum (timeout c))"
  "propOf (cleanedConfig c) ''showProjectName'' = Some (showProjectName c)"
  "propOf (cleanedConfig c) ''showIcon'' = Some (showIcon c)"
  "propOf (cleanedConfig c) ''notificationSystem'' = Some (JStr (notificationSystem c))"
  by (simp_all add: cleanedConfig_def)

lemma cleaned_events:
  "propOf (cleanedConfig c) ''events'' =
     (if nestedEvents c = [] then None else Some (JObj (nestedEvents c)))"
  by (simp add: cleanedConfig_def)

lemma cleaned_command:
  "propOf (cleanedConfig c) ''command'' =
     (if enabled (command c) \<or> path (command c) \<noteq> [] then Some (commandJson (command c)) else None)"
  by (simp add: cleanedConfig_def)

lemma cleaned_messages:
  "propOf (cleanedConfig c) ''messages'' = Some (messagesJson (messages c))"
  by (simp add: cleanedConfig_def)

lemma cleaned_sounds:
  "propOf (cleanedConfig c) ''sounds'' = None"
  by (simp add: cleanedConfig_def)

lemma cleaned_eventKey:
  "propOf (cleanedConfig c) (eventKey e) = None"
  by (cases e) (simp_all add: cleanedConfig_def)

lemma nullishOr_Some: "v \<noteq> JNull \<Longrightarrow> nullishOr (Some v) d = v"
  by (cases v) simp_all

lemma nullish_Some: "v \<noteq> JNull \<Longrightarrow> nullish (Some v) d = Some v"
  by (cases v) simp_all

lemma stringify_eventJson_not_null: "stringify (eventJson ev) \<noteq> JNull"
  by (simp add: eventJson_def)

lemma saved_userEvent:
  "userEvent (saved c) e = map_option stringify (savedEvent (savedSame c e) (events c e) (savedDefault c e))"
proof (cases "nestedEvents c = []")
  case True
  then have "map_of (nestedEvents c) (eventKey e) = None" by simp
  then have "savedEvent (savedSame c e) (events c e) (savedDefault c e) = None"
    by (simp add: nestedEvents_lookup)
  with True show ?thesis
    by (simp add: userEvent_def saved_def propOf_stringify cleaned_events cleaned_eventKey)
next
  case False
  have n: "stringify (JObj (nestedEvents c)) \<noteq> JNull" by simp
  have o: "optChain (Some (stringify (JObj (nestedEvents c)))) (eventKey e)
             = map_option stringify (savedEvent (savedSame c e) (events c e) (savedDefault c e))"
    using propOf_stringify [of "JObj (nestedEvents c)" "eventKey e"]
    by (simp add: nestedEvents_propOf del: propOf.simps)
  show ?thesis
  proof (cases "savedEvent (savedSame c e) (events c e) (savedDefault c e)")
    case None
    with False o show ?thesis
      by (simp add: userEvent_def saved_def propOf_stringify cleaned_events cleaned_eventKey
          del: propOf.simps stringify.simps)
  next
    case (Some v)
    then have v: "v = eventJson (events c e)" by (simp add: savedEvent_def split: if_splits)
    have "stringify v \<noteq> JNull" by (simp add: v eventJson_def)
    with False Some o show ?thesis
      by (simp add: userEvent_def saved_def propOf_stringify cleaned_events cleaned_eventKey
          nullish_Some del: propOf.simps stringify.simps)
  qed
qed

lemma saved_no_throw: "\<not> throws (loadBody D (saved c))"
proof -
  have "saved c \<noteq> JNull" by (simp add: saved_def cleanedConfig_def)
  moreover have "userEvent (saved c) e \<noteq> Some JNull" for e
    unfolding saved_userEvent
    by (auto simp: savedEvent_def eventJson_def)
  ultimately show ?thesis by (simp add: loadBody_throws)
qed

lemma loadedOK_DEFAULT: "loadedOK DEFAULT_CONFIG"
proof -
  have "stable (sound (DEFAULT_events e)) \<and> sound (DEFAULT_events e) \<noteq> JNull \<and>
        stable (notification (DEFAULT_events e)) \<and> notification (DEFAULT_events e) \<noteq> JNull \<and>
        stable (DEFAULT_messages e) \<and> DEFAULT_messages e \<noteq> JNull" for e
    by (cases e) (simp_all add: stable_def DEFAULT_EVENT_CONFIG_def)
  then show ?thesis
    by (simp add: loadedOK_def DEFAULT_CONFIG_def stable_def)
qed

lemma nullishOr_ok:
  assumes "\<And>v. a = Some v \<Longrightarrow> stable v" and "stable d" and "d \<noteq> JNull"
  shows "stable (nullishOr a d) \<and> nullishOr a d \<noteq> JNull"
  using assms by (cases "(a, d)" rule: nullishOr.cases) auto

lemma optChain_stable:
  assumes "\<And>v. a = Some v \<Longrightarrow> stable v" and "optChain a k = Some x"
  shows "stable x"
  using assms by (cases "(a, k)" rule: optChain.cases) (auto dest: stable_propOf)

lemma nullish_stable:
  assumes "\<And>v. a = Some v \<Longrightarrow> stable v" and "\<And>v. b = Some v \<Longrightarrow> stable v"
      and "nullish a b = Some x"
  shows "stable x"
  using assms by (cases "(a, b)" rule: nullish.cases) auto

lemma userEvent_stable:
  assumes "stable u" and "userEvent u e = Some x"
  shows "stable x"
proof (rule nullish_stable [OF _ _ assms(2) [unfolded userEvent_def]])
  fix v assume "optChain (propOf u ''events'') (eventKey e) = Some v"
  then show "stable v"
    by (rule optChain_stable [rotated]) (rule stable_propOf [OF assms(1)])
next
  fix v assume "propOf u (eventKey e) = Some v"
  then show "stable v" by (rule stable_propOf [OF assms(1)])
qed

lemma parseEventConfig_ok:
  assumes "parseEventConfig a d = Inr ev"
      and "\<And>v. a = Some v \<Longrightarrow> stable v"
      and "stable (sound d)" "sound d \<noteq> JNull" "stable (notification d)" "notification d \<noteq> JNull"
  shows "stable (sound ev) \<and> sound ev \<noteq> JNull \<and> stable (notification ev) \<and> notification ev \<noteq> JNull"
proof (cases a)
  case None
  with assms show ?thesis by simp
next
  case (Some v)
  then have sv: "stable v" using assms(2) by simp
  have p: "\<And>k x. propOf v k = Some x \<Longrightarrow> stable x" using sv by (rule stable_propOf)
  show ?thesis
  proof (cases v)
    case (JBool b)
    with Some assms(1) show ?thesis by (auto simp: stable_def)
  next
    case JNull
    with Some assms(1) show ?thesis by simp
  next
    case (JNum n)
    with Some assms show ?thesis by auto
  next
    case (JStr s)
    with Some assms show ?thesis by auto
  next
    case (JArr xs)
    with Some assms show ?thesis by auto
  next
    case (JObj kvs)
    with Some assms(1) have ev: "ev = \<lparr>sound = nullishOr (propOf v ''sound'') (sound d),
          notification = nullishOr (propOf v ''notification'') (notification d)\<rparr>"
      by auto
    have s1: "stable (nullishOr (propOf v ''sound'') (sound d)) \<and> nullishOr (propOf v ''sound'') (sound d) \<noteq> JNull"
      using assms(3,4) by (intro nullishOr_ok) (auto intro: p)
    have s2: "stable (nullishOr (propOf v ''notification'') (notification d))
              \<and> nullishOr (propOf v ''notification'') (notification d) \<noteq> JNull"
      using assms(5,6) by (intro nullishOr_ok) (auto intro: p)
    show ?thesis unfolding ev using s1 s2 by simp
  qed
qed


lemma stable_JNum: "stable (JNum n) \<longleftrightarrow> isFinite n"
  by (simp add: stable_def)

lemma loadTimeout_ok:
  assumes "\<And>v. a = Some v \<Longrightarrow> stable v" and "isFinite d" and "gtZero d"
  shows "isFinite (loadTimeout a d) \<and> gtZero (loadTimeout a d)"
  using assms by (cases "(a, d)" rule: loadTimeout.cases) (auto simp: stable_JNum)

lemma loadNotificationSystem_ok:
  "loadNotificationSystem a = ''osascript'' \<or> loadNotificationSystem a = ''node-notifier''"
  by (cases a rule: loadNotificationSystem.cases) auto

lemma commandMinDuration_ok:
  "isFinite (commandMinDuration a) \<and> (gtZero (commandMinDuration a) \<or> commandMinDuration a = Finite 0)"
  by (cases a rule: commandMinDuration.cases) auto

lemma eventDefault_ok:
  assumes "stable u" and "loadedOK D"
  shows "stable (sound (eventDefault D u e)) \<and> sound (eventDefault D u e) \<noteq> JNull \<and>
         stable (notification (eventDefault D u e)) \<and> notification (eventDefault D u e) \<noteq> JNull"
proof (cases "e = subagent_complete")
  case True
  then show ?thesis by (simp add: eventDefault_def stable_def)
next
  case False
  have s1: "stable (nullishOr (propOf u ''sound'') (globalSound D))
            \<and> nullishOr (propOf u ''sound'') (globalSound D) \<noteq> JNull"
    using assms(2) by (intro nullishOr_ok) (auto intro: stable_propOf [OF assms(1)] simp: loadedOK_def)
  have s2: "stable (nullishOr (propOf u ''notification'') (globalNotification D))
            \<and> nullishOr (propOf u ''notification'') (globalNotification D) \<noteq> JNull"
    using assms(2) by (intro nullishOr_ok) (auto intro: stable_propOf [OF assms(1)] simp: loadedOK_def)
  from False s1 s2 show ?thesis by (simp add: eventDefault_def)
qed

lemma loadBody_ok:
  assumes u: "stable u" and D: "loadedOK D" and c: "loadBody D u = Inr c"
  shows "loadedOK c"
proof -
  note p = stable_propOf [OF u]
  have g1: "stable (globalSound c) \<and> globalSound c \<noteq> JNull"
    unfolding loadBody_fields(1) [OF c]
    using D by (intro nullishOr_ok) (auto intro: p simp: loadedOK_def)
  have g2: "stable (globalNotification c) \<and> globalNotification c \<noteq> JNull"
    unfolding loadBody_fields(2) [OF c]
    using D by (intro nullishOr_ok) (auto intro: p simp: loadedOK_def)
  have g3: "stable (showProjectName c) \<and> showProjectName c \<noteq> JNull"
    unfolding loadBody_fields(4) [OF c]
    using D by (intro nullishOr_ok) (auto intro: p simp: loadedOK_def)
  have g4: "stable (showIcon c) \<and> showIcon c \<noteq> JNull"
    unfolding loadBody_fields(5) [OF c]
    using D by (intro nullishOr_ok) (auto intro: p simp: loadedOK_def)
  have t: "isFinite (timeout c) \<and> gtZero (timeout c)"
    unfolding loadBody_fields(3) [OF c]
    using D by (intro loadTimeout_ok) (auto intro: p simp: loadedOK_def)
  have n: "notificationSystem c = ''osascript'' \<or> notificationSystem c = ''node-notifier''"
    unfolding loadBody_fields(6) [OF c] by (rule loadNotificationSystem_ok)
  have m: "\<exists>m. minDuration (command c) = Some m \<and> isFinite m \<and> (gtZero m \<or> m = Finite 0)"
    unfolding loadBody_fields(10) [OF c] using commandMinDuration_ok by simp
  have ev: "stable (sound (events c e)) \<and> sound (events c e) \<noteq> JNull \<and>
           stable (notification (events c e)) \<and> notification (events c e) \<noteq> JNull" for e
    using eventDefault_ok [OF u D, of e]
    by (intro parseEventConfig_ok [OF loadBody_events [OF c, of e]]) (auto intro: userEvent_stable [OF u])
  have ms: "stable (messages c e) \<and> messages c e \<noteq> JNull" for e
    unfolding loadBody_fields(11) [OF c]
    using D by (intro nullishOr_ok) (auto intro: optChain_stable [rotated] p simp: loadedOK_def)
  from g1 g2 g3 g4 t n m ev ms show ?thesis
    unfolding loadedOK_def by blast
qed

lemma loadConfig_ok:
  assumes "\<And>u. f = Some (Parses u) \<Longrightarrow> stable u"
  shows "loadedOK (loadConfig DEFAULT_CONFIG f)"
proof (cases f)
  case None
  then show ?thesis by (simp add: loadedOK_DEFAULT)
next
  case (Some fc)
  show ?thesis
  proof (cases fc)
    case Unparsable
    with Some show ?thesis by (simp add: loadedOK_DEFAULT)
  next
    case (Parses u)
    with Some assms have u: "stable u" by simp
    show ?thesis
    proof (cases "loadBody DEFAULT_CONFIG u")
      case (Inl x)
      with Some Parses show ?thesis by (simp add: loadedOK_DEFAULT)
    next
      case (Inr c)
      from loadBody_ok [OF u loadedOK_DEFAULT Inr] Some Parses Inr show ?thesis by simp
    qed
  qed
qed


lemma strictEq_equal: "strictEq same a b \<Longrightarrow> a = b"
  by (cases "(same, a, b)" rule: strictEq.cases) auto

lemma strictEq_primitive: "stable a \<Longrightarrow> \<not> composite a \<Longrightarrow> strictEq same a b \<longleftrightarrow> a = b"
  by (cases "(same, a, b)" rule: strictEq.cases) (simp_all add: stable_def)

lemma messagesJson_lookup: "propOf (messagesJson m) (eventKey e) = Some (m e)"
  by (cases e) (simp_all add: messagesJson_def)

lemma saved_messages:
  "optChain (propOf (saved c) ''messages'') (eventKey e) = Some (stringify (messages c e))"
proof -
  have "optChain (Some (stringify (messagesJson m))) k = propOf (stringify (messagesJson m)) k" for m k
    by (simp add: messagesJson_def)
  then show ?thesis
    by (simp add: saved_def propOf_stringify cleaned_messages messagesJson_lookup)
qed

lemma stringsOf_JStr: "stringsOf (map JStr xs) = xs"
  by (induction xs) simp_all

lemma commandJson_lookup:
  "propOf (commandJson cc) ''enabled'' = Some (JBool (enabled cc))"
  "propOf (commandJson cc) ''path'' = Some (JStr (path cc))"
  "propOf (commandJson cc) ''args'' = map_option (\<lambda>xs. JArr (map JStr xs)) (args cc)"
  "propOf (commandJson cc) ''minDuration'' = map_option JNum (minDuration cc)"
proof -
  have d: "distinct (map fst (defined [
     (''enabled'', Some (JBool (enabled cc))),
     (''path'', Some (JStr (path cc))),
     (''args'', map_option (\<lambda>xs. JArr (map JStr xs)) (args cc)),
     (''minDuration'', map_option JNum (minDuration cc))]))"
    by (rule distinct_defined) simp
  show "propOf (commandJson cc) ''enabled'' = Some (JBool (enabled cc))"
    "propOf (commandJson cc) ''path'' = Some (JStr (path cc))"
    "propOf (commandJson cc) ''args'' = map_option (\<lambda>xs. JArr (map JStr xs)) (args cc)"
    "propOf (commandJson cc) ''minDuration'' = map_option JNum (minDuration cc)"
    unfolding commandJson_def propOf_distinct [OF d]
    by (simp_all add: map_of_defined)
qed

lemma savedDefault_reload:
  assumes "loadedOK c"
  shows "eventDefault D (saved c) e = savedDefault c e"
  using assms
  by (simp add: eventDefault_def savedDefault_def saved_def propOf_stringify cleaned_globals
      loadedOK_def stable_def nullishOr_Some)

lemma reload_event:
  assumes ok: "loadedOK c"
  shows "parseEventConfig (userEvent (saved c) e) (eventDefault D (saved c) e) = Inr (events c e)"
proof -
  from ok have s: "stable (sound (events c e))" "sound (events c e) \<noteq> JNull"
    "stable (notification (events c e))" "notification (events c e) \<noteq> JNull"
    by (simp_all add: loadedOK_def)
  show ?thesis
  proof (cases "savedEvent (savedSame c e) (events c e) (savedDefault c e)")
    case None
    then have "sound (events c e) = sound (savedDefault c e)"
      "notification (events c e) = notification (savedDefault c e)"
      by (auto simp: savedEvent_def split: if_splits dest: strictEq_equal)
    then have "events c e = savedDefault c e" by simp
    with None show ?thesis
      by (simp add: saved_userEvent savedDefault_reload [OF ok])
  next
    case (Some v)
    then have v: "v = eventJson (events c e)" by (simp add: savedEvent_def split: if_splits)
    have "stringify v = JObj [(''sound'', sound (events c e)), (''notification'', notification (events c e))]"
      using s by (simp add: v eventJson_def stable_def)
    with Some s show ?thesis
      by (simp add: saved_userEvent nullishOr_Some)
  qed
qed

lemma reload_fields:
  assumes ok: "loadedOK c" and r: "loadBody DEFAULT_CONFIG (saved c) = Inr c'"
  shows "globalSound c' = globalSound c"
    and "globalNotification c' = globalNotification c"
    and "timeout c' = timeout c"
    and "showProjectName c' = showProjectName c"
    and "showIcon c' = showIcon c"
    and "notificationSystem c' = notificationSystem c"
    and "events c' = events c"
    and "messages c' = messages c"
proof -
  show "globalSound c' = globalSound c"
    unfolding loadBody_fields(1) [OF r] using ok
    by (simp add: saved_def propOf_stringify cleaned_globals loadedOK_def stable_def nullishOr_Some)
  show "globalNotification c' = globalNotification c"
    unfolding loadBody_fields(2) [OF r] using ok
    by (simp add: saved_def propOf_stringify cleaned_globals loadedOK_def stable_def nullishOr_Some)
  show "timeout c' = timeout c"
    unfolding loadBody_fields(3) [OF r] using ok
    by (simp add: saved_def propOf_stringify cleaned_globals loadedOK_def)
  show "showProjectName c' = showProjectName c"
    unfolding loadBody_fields(4) [OF r] using ok
    by (simp add: saved_def propOf_stringify cleaned_globals loadedOK_def stable_def nullishOr_Some)
  show "showIcon c' = showIcon c"
    unfolding loadBody_fields(5) [OF r] using ok
    by (simp add: saved_def propOf_stringify cleaned_globals loadedOK_def stable_def nullishOr_Some)
  show "notificationSystem c' = notificationSystem c"
    unfolding loadBody_fields(6) [OF r] using ok
    by (auto simp: saved_def propOf_stringify cleaned_globals loadedOK_def)
  show "events c' = events c"
  proof
    fix e
    from loadBody_events [OF r, of e] reload_event [OF ok, where D = DEFAULT_CONFIG and e = e]
    show "events c' e = events c e" by simp
  qed
  show "messages c' = messages c"
  proof
    fix e
    from ok have m: "stable (messages c e)" "messages c e \<noteq> JNull" by (simp_all add: loadedOK_def)
    have "optChain (propOf (saved c) ''messages'') (eventKey e) = Some (messages c e)"
      using m by (simp add: saved_messages stable_def)
    then show "messages c' e = messages c e"
      unfolding loadBody_fields(11) [OF r] using m by (simp add: nullishOr_Some)
  qed
qed


lemma saved_command:
  "nullishOr (propOf (saved c) ''command'') (JObj []) =
     (if enabled (command c) \<or> path (command c) \<noteq> [] then stringify (commandJson (command c)) else JObj [])"
  by (simp add: saved_def propOf_stringify cleaned_command commandJson_def)

lemma commandArgs_saved:
  "commandArgs (map_option stringify (map_option (\<lambda>xs. JArr (map JStr xs)) a)) = a"
proof (cases a)
  case None
  then show ?thesis by simp
next
  case (Some xs)
  have "stringsOf (map (stringify \<circ> JStr) xs) = xs" by (induction xs) simp_all
  with Some show ?thesis by simp
qed

lemma reload_command:
  assumes ok: "loadedOK c" and r: "loadBody DEFAULT_CONFIG (saved c) = Inr c'"
  shows "command c' =
     (if enabled (command c) \<or> path (command c) \<noteq> [] then command c else command DEFAULT_CONFIG)"
proof (cases "enabled (command c) \<or> path (command c) \<noteq> []")
  case True
  from ok obtain m where m: "minDuration (command c) = Some m" "isFinite m" "gtZero m \<or> m = Finite 0"
    by (auto simp: loadedOK_def)
  have uc: "nullishOr (propOf (saved c) ''command'') (JObj []) = stringify (commandJson (command c))"
    using True by (simp add: saved_command)
  have 1: "enabled (command c') = enabled (command c)"
    unfolding loadBody_fields(7) [OF r] uc by (simp add: propOf_stringify commandJson_lookup)
  have 2: "path (command c') = path (command c)"
    unfolding loadBody_fields(8) [OF r] uc by (simp add: propOf_stringify commandJson_lookup)
  have 3: "args (command c') = args (command c)"
    unfolding loadBody_fields(9) [OF r] uc
    by (simp only: propOf_stringify commandJson_lookup commandArgs_saved)
  have 4: "minDuration (command c') = minDuration (command c)"
    unfolding loadBody_fields(10) [OF r] uc using m
    by (auto simp: propOf_stringify commandJson_lookup)
  from 1 2 3 4 True show ?thesis by simp
next
  case False
  then have uc: "nullishOr (propOf (saved c) ''command'') (JObj []) = JObj []"
    by (simp add: saved_command)
  have 1: "enabled (command c') = enabled (command DEFAULT_CONFIG)"
    unfolding loadBody_fields(7) [OF r] uc by simp
  have 2: "path (command c') = path (command DEFAULT_CONFIG)"
    unfolding loadBody_fields(8) [OF r] uc by simp
  have 3: "args (command c') = args (command DEFAULT_CONFIG)"
    unfolding loadBody_fields(9) [OF r] uc by (simp add: DEFAULT_CONFIG_def)
  have 4: "minDuration (command c') = minDuration (command DEFAULT_CONFIG)"
    unfolding loadBody_fields(10) [OF r] uc by (simp add: DEFAULT_CONFIG_def)
  from 1 2 3 4 False show ?thesis by simp
qed

lemma omitted_iff_strictEq:
  "userEvent (saved c) e = None \<longleftrightarrow>
     strictEq (fst (savedSame c e)) (sound (events c e)) (sound (savedDefault c e)) \<and>
     strictEq (snd (savedSame c e)) (notification (events c e)) (notification (savedDefault c e))"
  by (simp add: saved_userEvent savedEvent_def)

lemma omitted_iff_default:
  assumes ok: "loadedOK c"
      and p: "\<not> composite (sound (events c e))" "\<not> composite (notification (events c e))"
  shows "userEvent (saved c) e = None \<longleftrightarrow> events c e = savedDefault c e"
proof -
  from ok have s: "stable (sound (events c e))" "stable (notification (events c e))"
    by (simp_all add: loadedOK_def)
  have "userEvent (saved c) e = None \<longleftrightarrow>
        sound (events c e) = sound (savedDefault c e) \<and> notification (events c e) = notification (savedDefault c e)"
    using s p by (simp add: omitted_iff_strictEq strictEq_primitive)
  also have "\<dots> \<longleftrightarrow> events c e = savedDefault c e"
    by auto
  finally show ?thesis .
qed

lemma saved_command_key:
  "propOf (saved c) ''command'' = None \<longleftrightarrow> \<not> enabled (command c) \<and> path (command c) = []"
  by (simp add: saved_def propOf_stringify cleaned_command)

lemma load_after_save:
  "loadBody (defaultObject w) (saved c) = Inr c' \<Longrightarrow> load (saveConfig c w) = c'"
  by (simp add: load_def saveConfig_def saved_def)

lemma defaultObject_initial: "defaultObject (initialWorld f) = DEFAULT_CONFIG"
  by (simp add: initialWorld_def)

text \<open>
  Claim C1, amended. For every configuration file whose document is stable (and when
  there is no usable file), saving the loaded configuration and loading again gives the
  same \<open>sound\<close>, \<open>notification\<close>, \<open>timeout\<close>, \<open>showProjectName\<close>, \<open>showIcon\<close>,
  \<open>notificationSystem\<close>, \<open>events\<close> and \<open>messages\<close>, and the same \<open>command\<close> when the
  command is enabled or has a path (otherwise the default command). In the file written,
  the entry of an event is left out exactly when both its flags are strictly equal to
  those of its computed default (for flags that are not arrays or objects: when the entry
  equals the default), the command is left out exactly when it is disabled and has no
  path, and the six global fields and the messages are written whatever their values.
\<close>

theorem save_then_load:
  assumes "\<forall>userConfig. f = Some (Parses userConfig) \<longrightarrow> stable userConfig"
  shows "let w = initialWorld f; c = load w; c' = load (saveConfig c w) in
           globalSound c' = globalSound c \<and>
           globalNotification c' = globalNotification c \<and>
           timeout c' = timeout c \<and>
           showProjectName c' = showProjectName c \<and>
           showIcon c' = showIcon c \<and>
           notificationSystem c' = notificationSystem c \<and>
           events c' = events c \<and>
           messages c' = messages c \<and>
           command c' = (if enabled (command c) \<or> path (command c) \<noteq> [] then command c
                         else command DEFAULT_CONFIG) \<and>
           configFile (saveConfig c w) = Some (Parses (saved c)) \<and>
           (\<forall>e. userEvent (saved c) e = None \<longleftrightarrow>
                  strictEq (fst (savedSame c e)) (sound (events c e)) (sound (savedDefault c e)) \<and>
                  strictEq (snd (savedSame c e)) (notification (events c e))
                    (notification (savedDefault c e))) \<and>
           (\<forall>e. \<not> composite (sound (events c e)) \<and> \<not> composite (notification (events c e)) \<longrightarrow>
                  (userEvent (saved c) e = None \<longleftrightarrow> events c e = savedDefault c e)) \<and>
           (propOf (saved c) ''command'' = None \<longleftrightarrow>
              \<not> enabled (command c) \<and> path (command c) = []) \<and>
           propOf (saved c) ''sound'' = Some (globalSound c) \<and>
           propOf (saved c) ''notification'' = Some (globalNotification c) \<and>
           propOf (saved c) ''timeout'' = Some (JNum (timeout c)) \<and>
           propOf (saved c) ''showProjectName'' = Some (showProjectName c) \<and>
           propOf (saved c) ''showIcon'' = Some (showIcon c) \<and>
           propOf (saved c) ''notificationSystem'' = Some (JStr (notificationSystem c)) \<and>
           propOf (saved c) ''messages'' = Some (messagesJson (messages c))"
proof -
  define c where "c = loadConfig DEFAULT_CONFIG f"
  have ok: "loadedOK c" unfolding c_def using assms by (intro loadConfig_ok) simp
  obtain c' where r: "loadBody DEFAULT_CONFIG (saved c) = Inr c'"
    using saved_no_throw not_throws_Inr by blast
  have l: "load (initialWorld f) = c" by (simp add: load_def initialWorld_def c_def)
  have l': "load (saveConfig c (initialWorld f)) = c'"
    using r by (simp add: load_def initialWorld_def saveConfig_def saved_def)
  have fl: "configFile (saveConfig c (initialWorld f)) = Some (Parses (saved c))"
    by (simp add: saveConfig_def saved_def)
  have st: "stringify (globalSound c) = globalSound c" "stringify (globalNotification c) = globalNotification c"
    "stringify (showProjectName c) = showProjectName c" "stringify (showIcon c) = showIcon c"
    "isFinite (timeout c)" "\<And>e. stringify (messages c e) = messages c e"
    using ok by (simp_all add: loadedOK_def stable_def)
  have w: "propOf (saved c) ''sound'' = Some (globalSound c)"
    "propOf (saved c) ''notification'' = Some (globalNotification c)"
    "propOf (saved c) ''timeout'' = Some (JNum (timeout c))"
    "propOf (saved c) ''showProjectName'' = Some (showProjectName c)"
    "propOf (saved c) ''showIcon'' = Some (showIcon c)"
    "propOf (saved c) ''notificationSystem'' = Some (JStr (notificationSystem c))"
    using st by (simp_all add: saved_def propOf_stringify cleaned_globals)
  have wm: "propOf (saved c) ''messages'' = Some (messagesJson (messages c))"
    using st(6) by (simp add: saved_def propOf_stringify cleaned_messages messagesJson_def)
  show ?thesis
    unfolding Let_def l l'
    using reload_fields [OF ok r] reload_command [OF ok r] omitted_iff_default [OF ok]
      omitted_iff_strictEq [of c] saved_command_key [of c] fl w wm
    by simp
qed


theorem save_then_load_witness:
  "stable (JObj [(''sound'', JBool False),
                 (''events'', JObj [(''error'', JObj [(''sound'', JBool True)])]),
                 (''command'', JObj [(''enabled'', JBool True), (''path'', JStr ''notify.sh'')])])
   \<and> (let w = initialWorld (Some (Parses (JObj [(''sound'', JBool False),
                 (''events'', JObj [(''error'', JObj [(''sound'', JBool True)])]),
                 (''command'', JObj [(''enabled'', JBool True), (''path'', JStr ''notify.sh'')])])));
          c = load w; c' = load (saveConfig c w) in
        globalSound c' = JBool False \<and> events c' = events c \<and> messages c' = messages c
        \<and> command c' = \<lparr>enabled = True, path = ''notify.sh'', args = None, minDuration = Some (Finite 0)\<rparr>
        \<and> events c error = \<lparr>sound = JBool True, notification = JBool True\<rparr>
        \<and> userEvent (saved c) error = Some (eventJson (events c error))
        \<and> userEvent (saved c) subagent_complete = None)"
proof -
  let ?u = "JObj [(''sound'', JBool False),
                 (''events'', JObj [(''error'', JObj [(''sound'', JBool True)])]),
                 (''command'', JObj [(''enabled'', JBool True), (''path'', JStr ''notify.sh'')])]"
  let ?w = "initialWorld (Some (Parses ?u))"
  let ?c = "load ?w"
  let ?c' = "load (saveConfig ?c ?w)"
  have s: "stable ?u" by (simp add: stable_def)
  then have h: "\<forall>userConfig. Some (Parses ?u) = Some (Parses userConfig) \<longrightarrow> stable userConfig"
    by simp
  note T = save_then_load [OF h, unfolded Let_def]
  have g: "globalSound ?c = JBool False"
    by (simp add: load_def initialWorld_def loadBody_def userEvent_def Let_def)
  have gn: "globalNotification ?c = JBool True"
    by (simp add: load_def initialWorld_def loadBody_def userEvent_def Let_def DEFAULT_CONFIG_def)
  have cm: "command ?c = \<lparr>enabled = True, path = ''notify.sh'', args = None, minDuration = Some (Finite 0)\<rparr>"
    by (simp add: load_def initialWorld_def loadBody_def userEvent_def Let_def)
  have ee: "events ?c error = \<lparr>sound = JBool True, notification = JBool True\<rparr>"
    by (simp add: load_def initialWorld_def loadBody_def userEvent_def Let_def DEFAULT_CONFIG_def)
  have es: "events ?c subagent_complete = \<lparr>sound = JBool False, notification = JBool False\<rparr>"
    by (simp add: load_def initialWorld_def loadBody_def userEvent_def Let_def)
  have u1: "userEvent (saved ?c) error = Some (eventJson (events ?c error))"
    unfolding saved_userEvent ee
    by (simp add: savedEvent_def savedDefault_def g gn eventJson_def)
  have u2: "userEvent (saved ?c) subagent_complete = None"
    unfolding saved_userEvent es
    by (simp add: savedEvent_def savedDefault_def)
  have r1: "globalSound ?c' = JBool False" using T g by simp
  have r2: "events ?c' = events ?c" using T by blast
  have r3: "messages ?c' = messages ?c" using T by blast
  have r4: "command ?c' = \<lparr>enabled = True, path = ''notify.sh'', args = None, minDuration = Some (Finite 0)\<rparr>"
    using T cm by simp
  from s r1 r2 r3 r4 ee u1 u2 show ?thesis unfolding Let_def by blast
qed


text \<open>
  Claim C1 as stated fails on the file \<open>{"command": {"minDuration": 30}}\<close>, whose only
  field is not a default: the command is neither enabled nor has a path, so \<open>saveConfig\<close>
  leaves it out and the next load has \<open>minDuration\<close> 0. The file written holds
  \<open>"timeout": 5\<close> although 5 is the default.
\<close>

theorem save_then_load_counterexample:
  "(let w = initialWorld (Some (Parses (JObj [(''command'', JObj [(''minDuration'', JNum (Finite 30))])])));
        c = load w; c' = load (saveConfig c w) in
      minDuration (command c) = Some (Finite 30)
      \<and> minDuration (command c') = Some (Finite 0)
      \<and> c' \<noteq> c
      \<and> timeout c = timeout DEFAULT_CONFIG
      \<and> propOf (saved c) ''timeout'' = Some (JNum (Finite 5)))"
proof -
  let ?u = "JObj [(''command'', JObj [(''minDuration'', JNum (Finite 30))])]"
  let ?w = "initialWorld (Some (Parses ?u))"
  let ?c = "load ?w"
  let ?c' = "load (saveConfig ?c ?w)"
  have ok: "loadedOK ?c"
    unfolding load_def initialWorld_def
    by (simp del: loadConfig.simps, intro loadConfig_ok) (simp add: stable_def)
  obtain c' where r: "loadBody DEFAULT_CONFIG (saved ?c) = Inr c'"
    using saved_no_throw not_throws_Inr by blast
  then have l': "?c' = c'"
    by (intro load_after_save) (simp add: defaultObject_initial)
  have cm: "command ?c = \<lparr>enabled = False, path = [], args = None, minDuration = Some (Finite 30)\<rparr>"
    by (simp add: load_def initialWorld_def loadBody_def userEvent_def Let_def DEFAULT_CONFIG_def)
  have t: "timeout ?c = Finite 5"
    by (simp add: load_def initialWorld_def loadBody_def userEvent_def Let_def DEFAULT_CONFIG_def)
  have 1: "minDuration (command ?c) = Some (Finite 30)" by (simp add: cm)
  have "command c' = command DEFAULT_CONFIG"
    using reload_command [OF ok r] by (simp add: cm)
  then have 2: "minDuration (command ?c') = Some (Finite 0)"
    unfolding l' by (simp add: DEFAULT_CONFIG_def)
  from 1 2 have 3: "?c' \<noteq> ?c" by auto
  have 4: "timeout ?c = timeout DEFAULT_CONFIG" by (simp add: t DEFAULT_CONFIG_def)
  have 5: "propOf (saved ?c) ''timeout'' = Some (JNum (Finite 5))"
    by (simp add: saved_def propOf_stringify cleaned_globals t)
  from 1 2 3 4 5 show ?thesis unfolding Let_def by blast
qed

text \<open>
  A flag that is an object is compared by identity: an event's own \<open>{}\<close> differs from the
  global \<open>{}\<close> and is written, while an event that took the global flag over is left out.
\<close>

lemma object_flags_by_identity:
  "userEvent (saved (load (initialWorld (Some (Parses
      (JObj [(''sound'', JObj []), (''events'', JObj [(''permission'', JObj [(''sound'', JObj [])])])]))))))
     permission = Some (JObj [(''sound'', JObj []), (''notification'', JBool True)])
   \<and> userEvent (saved (load (initialWorld (Some (Parses (JObj [(''sound'', JObj [])]))))))
     permission = None"
proof -
  let ?u = "JObj [(''sound'', JObj []), (''events'', JObj [(''permission'', JObj [(''sound'', JObj [])])])]"
  let ?c = "load (initialWorld (Some (Parses ?u)))"
  let ?v = "JObj [(''sound'', JObj [])]"
  let ?d = "load (initialWorld (Some (Parses ?v)))"
  have c: "events ?c permission = \<lparr>sound = JObj [], notification = JBool True\<rparr>"
    "globalSound ?c = JObj []" "globalNotification ?c = JBool True"
    "fromGlobal ?c permission = (False, True)"
    by (simp_all add: load_def initialWorld_def loadBody_def userEvent_def Let_def DEFAULT_CONFIG_def)
  have d: "events ?d permission = \<lparr>sound = JObj [], notification = JBool True\<rparr>"
    "globalSound ?d = JObj []" "globalNotification ?d = JBool True"
    "fromGlobal ?d permission = (True, True)"
    by (simp_all add: load_def initialWorld_def loadBody_def userEvent_def Let_def DEFAULT_CONFIG_def)
  have 1: "userEvent (saved ?c) permission = Some (JObj [(''sound'', JObj []), (''notification'', JBool True)])"
    unfolding saved_userEvent
    by (simp add: savedEvent_def savedSame_def savedDefault_def c eventJson_def)
  have 2: "userEvent (saved ?d) permission = None"
    unfolding saved_userEvent
    by (simp add: savedEvent_def savedSame_def savedDefault_def d)
  from 1 2 show ?thesis by simp
qed

text \<open>
  \<open>saveConfig\<close> copies \<open>config.messages\<close> into the file but not \<open>config.sounds\<close>: after a
  save, every custom sound path is back at its default.
\<close>

lemma sounds_not_saved:
  assumes "loadBody D (saved c) = Inr c'"
  shows "sounds c' e = sounds D e"
  unfolding loadBody_fields(12) [OF assms]
  by (simp add: saved_def propOf_stringify cleaned_sounds)

lemma custom_sound_lost:
  "(let w = initialWorld (Some (Parses (JObj [(''sounds'', JObj [(''complete'', JStr ''/tmp/done.wav'')])])));
        c = load w; c' = load (saveConfig c w) in
      sounds c complete = JStr ''/tmp/done.wav'' \<and> sounds c' complete = JNull)"
proof -
  let ?u = "JObj [(''sounds'', JObj [(''complete'', JStr ''/tmp/done.wav'')])]"
  let ?w = "initialWorld (Some (Parses ?u))"
  let ?c = "load ?w"
  obtain c' where r: "loadBody DEFAULT_CONFIG (saved ?c) = Inr c'"
    using saved_no_throw not_throws_Inr by blast
  then have l': "load (saveConfig ?c ?w) = c'"
    by (intro load_after_save) (simp add: defaultObject_initial)
  have 1: "sounds ?c complete = JStr ''/tmp/done.wav''"
    by (simp add: load_def initialWorld_def loadBody_def userEvent_def Let_def)
  have 2: "sounds c' complete = JNull"
    using sounds_not_saved [OF r] by (simp add: DEFAULT_CONFIG_def)
  from 1 2 l' show ?thesis unfolding Let_def by simp
qed

section \<open>Sound toggle\<close>

text \<open>
  Claim C5. Without a configuration file, each of the four operations \<open>toggle\<close>,
  \<open>enable\<close>, \<open>disable\<close> and \<open>status\<close> returns \<open>success: false\<close> with a message that
  contains "Config file not found", and leaves the file (and the rest of the state) as it
  was.
\<close>

theorem toggle_without_config_file:
  assumes "configFile w = None"
      and "action \<in> {''toggle'', ''enable'', ''disable'', ''status''}"
  shows "\<not> success (fst (executeSoundToggle action w))
         \<and> includesStr (message (fst (executeSoundToggle action w))) ''Config file not found''
         \<and> snd (executeSoundToggle action w) = w"
proof -
  have inc: "includesStr (message notFound) ''Config file not found''"
    by (simp add: notFound_def)
  have "executeSoundToggle action w = (notFound, w)"
    using assms
    by (auto simp: executeSoundToggle_def toggleSound_def enableSound_def disableSound_def
                   soundStatus_def validateConfigExists_def)
  with inc show ?thesis by (simp add: notFound_def)
qed

theorem toggle_without_config_file_witness:
  "configFile (initialWorld None) = None
   \<and> ''toggle'' \<in> {''toggle'', ''enable'', ''disable'', ''status''}
   \<and> \<not> success (fst (executeSoundToggle ''toggle'' (initialWorld None)))
   \<and> includesStr (message (fst (executeSoundToggle ''toggle'' (initialWorld None)))) ''Config file not found''
   \<and> snd (executeSoundToggle ''toggle'' (initialWorld None)) = initialWorld None"
proof -
  have h1: "configFile (initialWorld None) = None" by (simp add: initialWorld_def)
  have h2: "''toggle'' \<in> {''toggle'', ''enable'', ''disable'', ''status''}" by simp
  from toggle_without_config_file [OF h1 h2] h1 h2 show ?thesis by blast
qed

lemma saved_sound: "propOf (saved c) ''sound'' = Some (stringify (globalSound c))"
  by (simp add: saved_def propOf_stringify cleaned_globals)

lemma toggle_step:
  assumes f: "configFile w = Some (Parses u)"
      and s: "propOf u ''sound'' = Some (JBool b)"
      and n: "\<not> throws (loadBody (defaultObject w) u)"
  shows "\<exists>c. toggleSound w =
            (\<lparr>success = True,
              message = (if \<not> b then ''Sounds have been enabled.'' else ''Sounds have been disabled.''),
              soundEnabled = Some (JBool (\<not> b))\<rparr>,
             w\<lparr>configFile := Some (Parses (saved c))\<rparr>)
          \<and> globalSound c = JBool (\<not> b)"
proof -
  from n obtain c0 where c0: "loadBody (defaultObject w) u = Inr c0"
    using not_throws_Inr by blast
  from loadBody_fields(1) [OF c0] s have g: "globalSound c0 = JBool b" by simp
  from f c0 have l: "load w = c0" and sh: "\<not> loadShared (defaultObject w) (configFile w)"
    by (simp_all add: load_def)
  let ?c = "c0\<lparr>globalSound := JBool (\<not> b)\<rparr>"
  have "toggleSound w =
            (\<lparr>success = True,
              message = (if \<not> b then ''Sounds have been enabled.'' else ''Sounds have been disabled.''),
              soundEnabled = Some (JBool (\<not> b))\<rparr>,
             w\<lparr>configFile := Some (Parses (saved ?c))\<rparr>)"
    using f l sh g
    by (simp add: toggleSound_def validateConfigExists_def assignSound_def saveConfig_def saved_def Let_def)
  moreover have "globalSound ?c = JBool (\<not> b)" by simp
  ultimately show ?thesis by blast
qed

text \<open>
  Claim C9, amended. For a configuration file without a null event entry whose \<open>sound\<close>
  flag is the boolean \<open>b\<close>: the first \<open>toggleSound\<close> reports success with \<open>soundEnabled\<close>
  the negation of \<open>b\<close> and writes that value; the second reports success with
  \<open>soundEnabled\<close> equal to \<open>b\<close> and writes \<open>b\<close> back.
\<close>

theorem toggleSound_twice:
  assumes "configFile w = Some (Parses userConfig)"
      and "propOf userConfig ''sound'' = Some (JBool b)"
      and "\<forall>e. userEvent userConfig e \<noteq> Some JNull"
  shows "success (fst (toggleSound w))
         \<and> soundEnabled (fst (toggleSound w)) = Some (JBool (\<not> b))
         \<and> persistedSound (snd (toggleSound w)) = Some (JBool (\<not> b))
         \<and> success (fst (toggleSound (snd (toggleSound w))))
         \<and> soundEnabled (fst (toggleSound (snd (toggleSound w)))) = Some (JBool b)
         \<and> persistedSound (snd (toggleSound (snd (toggleSound w)))) = Some (JBool b)
         \<and> getSoundStatus (snd (toggleSound (snd (toggleSound w)))) = JBool b"
proof -
  have "userConfig \<noteq> JNull" using assms(2) by auto
  with assms(3) have n: "\<not> throws (loadBody (defaultObject w) userConfig)"
    by (simp add: loadBody_throws)
  from toggle_step [OF assms(1,2) n] obtain c1 where
    t1: "toggleSound w =
            (\<lparr>success = True,
              message = (if \<not> b then ''Sounds have been enabled.'' else ''Sounds have been disabled.''),
              soundEnabled = Some (JBool (\<not> b))\<rparr>,
             w\<lparr>configFile := Some (Parses (saved c1))\<rparr>)"
    and g1: "globalSound c1 = JBool (\<not> b)" by blast
  let ?w1 = "w\<lparr>configFile := Some (Parses (saved c1))\<rparr>"
  have f1: "configFile ?w1 = Some (Parses (saved c1))" by simp
  have s1: "propOf (saved c1) ''sound'' = Some (JBool (\<not> b))" by (simp add: saved_sound g1)
  have n1: "\<not> throws (loadBody (defaultObject ?w1) (saved c1))" by (rule saved_no_throw)
  from toggle_step [OF f1 s1 n1] obtain c2 where
    t2: "toggleSound ?w1 =
            (\<lparr>success = True,
              message = (if \<not> \<not> b then ''Sounds have been enabled.'' else ''Sounds have been disabled.''),
              soundEnabled = Some (JBool (\<not> \<not> b))\<rparr>,
             ?w1\<lparr>configFile := Some (Parses (saved c2))\<rparr>)"
    and g2: "globalSound c2 = JBool (\<not> \<not> b)" by blast
  let ?w2 = "?w1\<lparr>configFile := Some (Parses (saved c2))\<rparr>"
  have s2: "propOf (saved c2) ''sound'' = Some (JBool b)" using g2 by (simp add: saved_sound)
  obtain c3 where c3: "loadBody (defaultObject ?w2) (saved c2) = Inr c3"
    using saved_no_throw not_throws_Inr by blast
  from loadBody_fields(1) [OF c3] s2 have "globalSound c3 = JBool b" by simp
  with c3 have st: "getSoundStatus ?w2 = JBool b"
    by (simp add: getSoundStatus_def load_def)
  have p1: "persistedSound ?w1 = Some (JBool (\<not> b))" using s1 by (simp add: persistedSound_def)
  have p2: "persistedSound ?w2 = Some (JBool b)" using s2 by (simp add: persistedSound_def)
  show ?thesis
    unfolding t1 snd_conv fst_conv t2 using p1 p2 st by simp
qed

theorem toggleSound_twice_witness:
  "(let w = initialWorld (Some (Parses (JObj [(''sound'', JBool True), (''notification'', JBool True)]))) in
      persistedSound w = Some (JBool True)
      \<and> success (fst (toggleSound w))
      \<and> soundEnabled (fst (toggleSound w)) = Some (JBool False)
      \<and> persistedSound (snd (toggleSound w)) = Some (JBool False)
      \<and> success (fst (toggleSound (snd (toggleSound w))))
      \<and> soundEnabled (fst (toggleSound (snd (toggleSound w)))) = Some (JBool True)
      \<and> persistedSound (snd (toggleSound (snd (toggleSound w)))) = Some (JBool True)
      \<and> getSoundStatus (snd (toggleSound (snd (toggleSound w)))) = JBool True)"
proof -
  let ?u = "JObj [(''sound'', JBool True), (''notification'', JBool True)]"
  let ?w = "initialWorld (Some (Parses ?u))"
  have h1: "configFile ?w = Some (Parses ?u)" by (simp add: initialWorld_def)
  have h2: "propOf ?u ''sound'' = Some (JBool True)" by simp
  have h3: "\<forall>e. userEvent ?u e \<noteq> Some JNull"
  proof
    fix e show "userEvent ?u e \<noteq> Some JNull" by (cases e) (simp_all add: userEvent_def)
  qed
  have p: "persistedSound ?w = Some (JBool True)" by (simp add: persistedSound_def initialWorld_def)
  from toggleSound_twice [OF h1 h2 h3] p show ?thesis unfolding Let_def by simp
qed

text \<open>
  Claim C9 as stated fails on \<open>{"sound": false, "complete": null}\<close>: \<open>loadConfig\<close> falls
  back to the defaults, whose \<open>sound\<close> is true, so the first toggle writes false again
  and reports it, and after the second toggle the flag is true.
\<close>

theorem toggleSound_twice_counterexample:
  "(let w = initialWorld (Some (Parses (JObj [(''sound'', JBool False), (''complete'', JNull)]))) in
      persistedSound w = Some (JBool False)
      \<and> soundEnabled (fst (toggleSound w)) = Some (JBool False)
      \<and> persistedSound (snd (toggleSound w)) = Some (JBool False)
      \<and> persistedSound (snd (toggleSound (snd (toggleSound w)))) = Some (JBool True))"
proof -
  let ?u = "JObj [(''sound'', JBool False), (''complete'', JNull)]"
  let ?w = "initialWorld (Some (Parses ?u))"
  let ?c1 = "DEFAULT_CONFIG\<lparr>globalSound := JBool False\<rparr>"
  let ?w1 = "\<lparr>configFile = Some (Parses (saved ?c1)), defaultObject = ?c1\<rparr>"
  have p0: "persistedSound ?w = Some (JBool False)"
    by (simp add: persistedSound_def initialWorld_def)
  have lb: "loadBody DEFAULT_CONFIG ?u = Inl TypeError"
    by (simp add: loadBody_def userEvent_def Let_def)
  have ds: "globalSound DEFAULT_CONFIG = JBool True" by (simp add: DEFAULT_CONFIG_def)
  have t1: "toggleSound ?w =
              (\<lparr>success = True, message = ''Sounds have been disabled.'',
                soundEnabled = Some (JBool False)\<rparr>, ?w1)"
    by (simp add: toggleSound_def validateConfigExists_def assignSound_def load_def
        initialWorld_def saveConfig_def lb ds Let_def)
  have f1: "configFile ?w1 = Some (Parses (saved ?c1))" by simp
  have s1: "propOf (saved ?c1) ''sound'' = Some (JBool False)" by (simp add: saved_sound)
  have n1: "\<not> throws (loadBody (defaultObject ?w1) (saved ?c1))" by (rule saved_no_throw)
  from toggle_step [OF f1 s1 n1] obtain c2 where
    t2: "snd (toggleSound ?w1) = ?w1\<lparr>configFile := Some (Parses (saved c2))\<rparr>"
    and g2: "globalSound c2 = JBool (\<not> False)" by auto
  have p1: "persistedSound ?w1 = Some (JBool False)" using s1 by (simp add: persistedSound_def)
  have p2: "persistedSound (snd (toggleSound ?w1)) = Some (JBool True)"
    unfolding t2 using g2 by (simp add: persistedSound_def saved_sound)
  show ?thesis
    unfolding Let_def t1 fst_conv snd_conv using p0 p1 p2 by simp
qed

section \<open>Dispatch\<close>

text \<open>
  Claim C3. For an event type whose notification is enabled, when
  \<open>suppressWhenFocused\<close> is set and the terminal is focused, \<open>handleEvent\<close> makes no call
  at all: no notification, no sound, no command. The same holds when it is reached
  through \<open>handleEventWithElapsedTime\<close>.
\<close>

theorem suppression_short_circuits:
  assumes "truthy (isEventNotificationEnabled config eventType)"
      and "suppressWhenFocused config = Some flag"
      and "truthy flag"
      and "isTerminalFocused env = Inr True"
  shows "handleEvent config env eventType projectName elapsedSeconds = Inr []
         \<and> handleEventWithElapsedTime client secondsSince config env eventType projectName event = Inr []"
  using assms by (simp add: handleEvent_def handleEventWithElapsedTime_def)

theorem suppression_short_circuits_witness:
  "truthy (isEventNotificationEnabled (NotifierConfig.extend DEFAULT_CONFIG \<lparr>suppressWhenFocused = Some (JBool True)\<rparr>) complete)
   \<and> isTerminalFocused \<lparr>platform = ''darwin'', detectedTerminal = Some ''iterm'',
        osascriptOutput = Some ''iTerm2'', powershellOutput = None\<rparr> = Inr True
   \<and> handleEvent (NotifierConfig.extend DEFAULT_CONFIG \<lparr>suppressWhenFocused = Some (JBool True)\<rparr>)
        \<lparr>platform = ''darwin'', detectedTerminal = Some ''iterm'',
         osascriptOutput = Some ''iTerm2'', powershellOutput = None\<rparr>
        complete (Some ''proj'') None = Inr []
   \<and> handleEvent (NotifierConfig.extend DEFAULT_CONFIG \<lparr>suppressWhenFocused = None\<rparr>)
        \<lparr>platform = ''darwin'', detectedTerminal = Some ''iterm'',
         osascriptOutput = Some ''iTerm2'', powershellOutput = None\<rparr>
        complete (Some ''proj'') None
      = Inr [SendNotification ''OpenCode (proj)'' (JStr ''Session has finished'') (Finite 5),
             PlaySound complete JNull,
             RunCommand complete (JStr ''Session has finished'')]"
proof -
  let ?c = "NotifierConfig.extend DEFAULT_CONFIG \<lparr>suppressWhenFocused = Some (JBool True)\<rparr>"
  let ?e = "\<lparr>platform = ''darwin'', detectedTerminal = Some ''iterm'',
        osascriptOutput = Some ''iTerm2'', powershellOutput = None\<rparr>"
  have h1: "truthy (isEventNotificationEnabled ?c complete)"
    by (simp add: isEventNotificationEnabled_def NotifierConfig.defs DEFAULT_CONFIG_def DEFAULT_EVENT_CONFIG_def Let_def)
  have h2: "suppressWhenFocused ?c = Some (JBool True)"
    by (simp add: NotifierConfig.defs DEFAULT_CONFIG_def)
  have h3: "truthy (JBool True)" by simp
  have h4: "isTerminalFocused ?e = Inr True"
    by (simp add: isTerminalFocused_def getFrontmostAppMac_def getTerminalProcessName_def
        TERMINAL_PROCESS_NAMES_def toLowerCase_def lowerChar_def Let_def)
  have other: "handleEvent (NotifierConfig.extend DEFAULT_CONFIG \<lparr>suppressWhenFocused = None\<rparr>) ?e
        complete (Some ''proj'') None
      = Inr [SendNotification ''OpenCode (proj)'' (JStr ''Session has finished'') (Finite 5),
             PlaySound complete JNull,
             RunCommand complete (JStr ''Session has finished'')]"
    by (simp add: handleEvent_def soundAndCommand_def shouldSkipCommand_def getNotificationTitle_def
        getMessage_def getSoundPath_def isEventSoundEnabled_def
        isEventNotificationEnabled_def NotifierConfig.defs DEFAULT_CONFIG_def DEFAULT_EVENT_CONFIG_def Let_def)
  from suppression_short_circuits [OF h1 h2 h3 h4, of "Some ''proj''" None] h1 h4 other
  show ?thesis by simp
qed

text \<open>
  The focus query throws for a detected terminal named \<open>constructor\<close> on macOS, and then
  \<open>handleEvent\<close> throws before it has made any call.
\<close>

lemma focus_query_throws:
  "isTerminalFocused \<lparr>platform = ''darwin'', detectedTerminal = Some ''constructor'',
        osascriptOutput = Some ''Finder'', powershellOutput = None\<rparr> = Inl TypeError
   \<and> handleEvent (NotifierConfig.extend DEFAULT_CONFIG \<lparr>suppressWhenFocused = Some (JBool True)\<rparr>)
        \<lparr>platform = ''darwin'', detectedTerminal = Some ''constructor'',
         osascriptOutput = Some ''Finder'', powershellOutput = None\<rparr>
        complete (Some ''proj'') None = Inl TypeError"
proof -
  let ?e = "\<lparr>platform = ''darwin'', detectedTerminal = Some ''constructor'',
        osascriptOutput = Some ''Finder'', powershellOutput = None\<rparr>"
  have f: "isTerminalFocused ?e = Inl TypeError"
    by (simp add: isTerminalFocused_def getFrontmostAppMac_def getTerminalProcessName_def
        toLowerCase_def lowerChar_def Let_def)
  then show ?thesis
    by (simp add: handleEvent_def isEventNotificationEnabled_def NotifierConfig.defs
        DEFAULT_CONFIG_def DEFAULT_EVENT_CONFIG_def Let_def)
qed

lemma lastUserMessage_none:
  "userMessages msgs = [] \<Longrightarrow> lastUserMessage msgs acc = acc"
  by (induction msgs arbitrary: acc) (auto simp: userMessages_def split: if_splits)

lemma shouldSkipCommand_None: "\<not> shouldSkipCommand config None"
  by (simp add: shouldSkipCommand_def split: option.splits)

lemma shouldSkipCommand_known:
  assumes "shouldSkipCommand config elapsed"
  shows "\<exists>s r. elapsed = Some (Finite s) \<and> minDuration (command config) = Some (Finite r) \<and> 0 < r \<and> s < r"
proof -
  from assms obtain m e where m: "minDuration (command config) = Some m" "isFinite m" "gtZero m"
    and e: "elapsed = Some e" "isFinite e" "numLess e m"
    by (auto simp: shouldSkipCommand_def split: option.splits)
  from m(2) obtain r where r: "m = Finite r" by (cases m) simp_all
  from e(2) obtain s where s: "e = Finite s" by (cases e) simp_all
  from m e r s show ?thesis by simp
qed

lemma handleEvent_passes_focus:
  assumes "focusConsulted config eventType \<longrightarrow> isTerminalFocused env = Inr False"
  shows "\<not> throws (handleEvent config env eventType projectName elapsed)"
    and "RunCommand eventType (getMessage config eventType)
           \<in> set (dispatched (handleEvent config env eventType projectName elapsed))
         \<longleftrightarrow> \<not> shouldSkipCommand config elapsed"
  using assms
  by (auto simp: handleEvent_def soundAndCommand_def focusConsulted_def Let_def split: option.splits)

text \<open>
  Claim C10, amended. With command gating configured (enabled, a path, a positive finite
  \<open>minDuration\<close>), when the event has no session id, or the host query fails, or the
  session has no user message with a numeric creation time, the elapsed time is null; and
  whenever \<open>handleEvent\<close> gets past its focus test (it does not consult the focus, or the
  query resolves to false), it then calls \<open>runCommand\<close>. Past the focus test, and for any
  elapsed time, the command is left out only when the elapsed time is a finite number
  strictly below \<open>minDuration\<close>.
\<close>

theorem command_runs_when_elapsed_unknown:
  assumes "shouldLookupElapsed config"
      and "getSessionIDFromEvent event = None
           \<or> (\<exists>sessionID. getSessionIDFromEvent event = Some sessionID \<and>
                 (client sessionID = Failed
                  \<or> (\<exists>data. client sessionID = Response data \<and>
                        userMessages (case data of None \<Rightarrow> [] | Some ms \<Rightarrow> ms) = [])))"
      and "focusConsulted config eventType \<longrightarrow> isTerminalFocused env = Inr False"
  shows "elapsedFor client secondsSince config event = None
         \<and> \<not> throws (handleEventWithElapsedTime client secondsSince config env eventType projectName event)
         \<and> RunCommand eventType (getMessage config eventType)
             \<in> set (dispatched (handleEventWithElapsedTime client secondsSince config env eventType
                       projectName event))
         \<and> (\<forall>elapsed. RunCommand eventType (getMessage config eventType)
                 \<notin> set (dispatched (handleEvent config env eventType projectName elapsed))
              \<longrightarrow> (\<exists>s r. elapsed = Some (Finite s) \<and> minDuration (command config) = Some (Finite r)
                      \<and> 0 < r \<and> s < r))"
proof -
  have none: "elapsedFor client secondsSince config event = None"
    using assms(1,2)
    by (auto simp: elapsedFor_def getElapsedSinceLastPrompt_def lastUserMessage_none)
  have nt: "\<not> throws (handleEventWithElapsedTime client secondsSince config env eventType projectName event)"
    unfolding handleEventWithElapsedTime_def by (rule handleEvent_passes_focus(1) [OF assms(3)])
  have run: "RunCommand eventType (getMessage config eventType)
             \<in> set (dispatched (handleEventWithElapsedTime client secondsSince config env eventType
                       projectName event))"
    unfolding handleEventWithElapsedTime_def none
    by (simp add: handleEvent_passes_focus(2) [OF assms(3)] shouldSkipCommand_None)
  have only: "\<exists>s r. elapsed = Some (Finite s) \<and> minDuration (command config) = Some (Finite r) \<and> 0 < r \<and> s < r"
    if "RunCommand eventType (getMessage config eventType)
          \<notin> set (dispatched (handleEvent config env eventType projectName elapsed))"
    for elapsed
    using that shouldSkipCommand_known by (simp add: handleEvent_passes_focus(2) [OF assms(3)])
  from none nt run only show ?thesis by blast
qed

theorem command_runs_when_elapsed_unknown_witness:
  "shouldLookupElapsed (NotifierConfig.extend
      (DEFAULT_CONFIG\<lparr>command := \<lparr>enabled = True, path = ''notify.sh'', args = None, minDuration = Some (Finite 30)\<rparr>\<rparr>)
      \<lparr>suppressWhenFocused = None\<rparr>)
   \<and> getSessionIDFromEvent (Some (JObj [(''type'', JStr ''session.error'')])) = None
   \<and> RunCommand error (JStr ''Session encountered an error'')
       \<in> set (dispatched (handleEventWithElapsedTime (\<lambda>sessionID. Failed) (\<lambda>t. NaN)
            (NotifierConfig.extend
               (DEFAULT_CONFIG\<lparr>command := \<lparr>enabled = True, path = ''notify.sh'', args = None, minDuration = Some (Finite 30)\<rparr>\<rparr>)
               \<lparr>suppressWhenFocused = None\<rparr>)
            \<lparr>platform = ''linux'', detectedTerminal = None, osascriptOutput = None, powershellOutput = None\<rparr>
            error None (Some (JObj [(''type'', JStr ''session.error'')]))))"
proof -
  let ?c = "NotifierConfig.extend
      (DEFAULT_CONFIG\<lparr>command := \<lparr>enabled = True, path = ''notify.sh'', args = None, minDuration = Some (Finite 30)\<rparr>\<rparr>)
      \<lparr>suppressWhenFocused = None\<rparr>"
  let ?ev = "Some (JObj [(''type'', JStr ''session.error'')])"
  let ?e = "\<lparr>platform = ''linux'', detectedTerminal = None, osascriptOutput = None, powershellOutput = None\<rparr>"
  have h1: "shouldLookupElapsed ?c"
    by (simp add: shouldLookupElapsed_def NotifierConfig.defs DEFAULT_CONFIG_def)
  have h2: "getSessionIDFromEvent ?ev = None"
    by (simp add: getSessionIDFromEvent_def)
  then have h2': "getSessionIDFromEvent ?ev = None
           \<or> (\<exists>sessionID. getSessionIDFromEvent ?ev = Some sessionID \<and>
                 ((\<lambda>sessionID. Failed) sessionID = Failed
                  \<or> (\<exists>data. (\<lambda>sessionID. Failed) sessionID = Response data \<and>
                        userMessages (case data of None \<Rightarrow> [] | Some ms \<Rightarrow> ms) = [])))"
    by simp
  have h3: "focusConsulted ?c error \<longrightarrow> isTerminalFocused ?e = Inr False"
    by (simp add: focusConsulted_def NotifierConfig.defs DEFAULT_CONFIG_def)
  have m: "getMessage ?c error = JStr ''Session encountered an error''"
    by (simp add: getMessage_def NotifierConfig.defs DEFAULT_CONFIG_def)
  from command_runs_when_elapsed_unknown [OF h1 h2' h3, of "\<lambda>t. NaN" None] h1 h2 m
  show ?thesis by simp
qed

text \<open>
  Claim C10 as stated fails where the focus test stops the handler: with gating
  configured and an event without session id, but \<open>suppressWhenFocused\<close> set and the
  terminal focused, the elapsed time is null and yet no command is run.
\<close>

theorem command_not_run_when_suppressed:
  "shouldLookupElapsed (NotifierConfig.extend
      (DEFAULT_CONFIG\<lparr>command := \<lparr>enabled = True, path = ''notify.sh'', args = None, minDuration = Some (Finite 30)\<rparr>\<rparr>)
      \<lparr>suppressWhenFocused = Some (JBool True)\<rparr>)
   \<and> getSessionIDFromEvent (Some (JObj [(''type'', JStr ''session.error'')])) = None
   \<and> elapsedFor (\<lambda>sessionID. Failed) (\<lambda>t. NaN)
        (NotifierConfig.extend
           (DEFAULT_CONFIG\<lparr>command := \<lparr>enabled = True, path = ''notify.sh'', args = None, minDuration = Some (Finite 30)\<rparr>\<rparr>)
           \<lparr>suppressWhenFocused = Some (JBool True)\<rparr>)
        (Some (JObj [(''type'', JStr ''session.error'')])) = None
   \<and> handleEventWithElapsedTime (\<lambda>sessionID. Failed) (\<lambda>t. NaN)
        (NotifierConfig.extend
           (DEFAULT_CONFIG\<lparr>command := \<lparr>enabled = True, path = ''notify.sh'', args = None, minDuration = Some (Finite 30)\<rparr>\<rparr>)
           \<lparr>suppressWhenFocused = Some (JBool True)\<rparr>)
        \<lparr>platform = ''darwin'', detectedTerminal = Some ''iterm'',
         osascriptOutput = Some ''iTerm2'', powershellOutput = None\<rparr>
        error None (Some (JObj [(''type'', JStr ''session.error'')])) = Inr []"
proof -
  let ?c = "NotifierConfig.extend
      (DEFAULT_CONFIG\<lparr>command := \<lparr>enabled = True, path = ''notify.sh'', args = None, minDuration = Some (Finite 30)\<rparr>\<rparr>)
      \<lparr>suppressWhenFocused = Some (JBool True)\<rparr>"
  let ?ev = "Some (JObj [(''type'', JStr ''session.error'')])"
  let ?e = "\<lparr>platform = ''darwin'', detectedTerminal = Some ''iterm'',
         osascriptOutput = Some ''iTerm2'', powershellOutput = None\<rparr>"
  have h1: "shouldLookupElapsed ?c"
    by (simp add: shouldLookupElapsed_def NotifierConfig.defs DEFAULT_CONFIG_def)
  have h2: "getSessionIDFromEvent ?ev = None"
    by (simp add: getSessionIDFromEvent_def)
  have h3: "elapsedFor (\<lambda>sessionID. Failed) (\<lambda>t. NaN) ?c ?ev = None"
    by (simp add: elapsedFor_def h2)
  have f: "isTerminalFocused ?e = Inr True"
    by (simp add: isTerminalFocused_def getFrontmostAppMac_def getTerminalProcessName_def
        TERMINAL_PROCESS_NAMES_def toLowerCase_def lowerChar_def Let_def)
  have h4: "handleEventWithElapsedTime (\<lambda>sessionID. Failed) (\<lambda>t. NaN) ?c ?e error None ?ev = Inr []"
    by (simp add: handleEventWithElapsedTime_def handleEvent_def f isEventNotificationEnabled_def
        NotifierConfig.defs DEFAULT_CONFIG_def DEFAULT_EVENT_CONFIG_def Let_def)
  from h1 h2 h3 h4 show ?thesis by blast
qed

section \<open>Name matching\<close>

lemma startsWith_prefix: "startsWith s t \<longleftrightarrow> prefix t s"
  by (induction s t rule: startsWith.induct) auto

lemma includesStr_sublist: "includesStr s t \<longleftrightarrow> sublist t s"
proof (induction s)
  case Nil
  show ?case by simp
next
  case (Cons c s)
  show ?case
  proof (cases t)
    case Nil
    then show ?thesis by simp
  next
    case (Cons d t')
    with Cons.IH show ?thesis
      by (simp add: startsWith_prefix sublist_Cons_right del: startsWith.simps)
  qed
qed

text \<open>
  Claim C8, amended. \<open>matchesTerminal\<close> lowercases both names and strips every character
  that is not a letter or a digit, and reports a match iff both normalized names are
  non-empty and one occurs in the other as a contiguous part. "iTerm2" against "iterm"
  is a match; "Finder" against "kitty" is not.
\<close>

theorem matchesTerminal_characterised:
  "(matchesTerminal frontmost terminal \<longleftrightarrow>
      normalizeAppName frontmost \<noteq> [] \<and> normalizeAppName terminal \<noteq> [] \<and>
      (sublist (normalizeAppName terminal) (normalizeAppName frontmost)
       \<or> sublist (normalizeAppName frontmost) (normalizeAppName terminal)))
   \<and> normalizeAppName ''iTerm2'' = ''iterm2''
   \<and> matchesTerminal ''iTerm2'' ''iterm''
   \<and> \<not> matchesTerminal ''Finder'' ''kitty''"
proof -
  have a: "matchesTerminal frontmost terminal \<longleftrightarrow>
      normalizeAppName frontmost \<noteq> [] \<and> normalizeAppName terminal \<noteq> [] \<and>
      (sublist (normalizeAppName terminal) (normalizeAppName frontmost)
       \<or> sublist (normalizeAppName frontmost) (normalizeAppName terminal))"
    by (auto simp: matchesTerminal_def Let_def includesStr_sublist)
  have b: "normalizeAppName ''iTerm2'' = ''iterm2''"
    by (simp add: normalizeAppName_def toLowerCase_def lowerChar_def alnum_def)
  have c: "matchesTerminal ''iTerm2'' ''iterm''"
    by (simp add: matchesTerminal_def normalizeAppName_def toLowerCase_def lowerChar_def alnum_def)
  have d: "\<not> matchesTerminal ''Finder'' ''kitty''"
    by (simp add: matchesTerminal_def normalizeAppName_def toLowerCase_def lowerChar_def alnum_def)
  from a b c d show ?thesis by blast
qed

text \<open>
  Claim C8 as stated, without the test for empty names, fails: "-" normalizes to the
  empty string, which "kitty" contains, yet \<open>matchesTerminal\<close> reports no match.
\<close>

theorem matchesTerminal_empty_counterexample:
  "\<not> (matchesTerminal ''-'' ''kitty'' \<longleftrightarrow>
        (sublist (normalizeAppName ''kitty'') (normalizeAppName ''-'')
         \<or> sublist (normalizeAppName ''-'') (normalizeAppName ''kitty'')))"
proof -
  have n: "normalizeAppName ''-'' = []"
    by (simp add: normalizeAppName_def toLowerCase_def lowerChar_def alnum_def)
  have "\<not> matchesTerminal ''-'' ''kitty''"
    by (simp add: matchesTerminal_def n)
  moreover have "sublist (normalizeAppName ''-'') (normalizeAppName ''kitty'')"
    by (simp add: n)
  ultimately show ?thesis by blast
qed

section \<open>Debounce\<close>

lemma sendNotification_other:
  "messageText' \<noteq> messageText \<Longrightarrow>
   snd (sendNotification osType messageText' timeoutSecs now tbl) messageText = tbl messageText"
  by (simp add: sendNotification_def stamp_def)

lemma sendAll_other:
  "\<forall>c \<in> set calls. fst c \<noteq> messageText \<Longrightarrow>
   snd (sendAll osType calls tbl) messageText = tbl messageText"
proof (induction calls arbitrary: tbl)
  case Nil
  show ?case by simp
next
  case (Cons c calls)
  obtain m' tmo now where c: "c = (m', tmo, now)" by (cases c)
  from Cons.prems c have ne: "m' \<noteq> messageText" and rest: "\<forall>c \<in> set calls. fst c \<noteq> messageText"
    by simp_all
  have "snd (sendAll osType (c # calls) tbl) messageText
        = snd (sendAll osType calls (snd (sendNotification osType m' tmo now tbl))) messageText"
    by (simp add: c split: prod.splits)
  also have "\<dots> = snd (sendNotification osType m' tmo now tbl) messageText"
    using Cons.IH [OF rest] .
  also have "\<dots> = tbl messageText"
    using ne by (rule sendNotification_other)
  finally show ?case .
qed

lemma sendNotification_delivered:
  "fst (sendNotification osType messageText timeoutSecs now tbl) \<noteq> None \<Longrightarrow>
   messageText \<noteq> ''__proto__'' \<Longrightarrow>
   snd (sendNotification osType messageText timeoutSecs now tbl) messageText = Some now"
  by (simp add: sendNotification_def stamp_def split: if_splits)

text \<open>
  What the debounce does achieve: for a message text other than \<open>__proto__\<close>, after a call
  that is delivered at a non-zero clock reading \<open>t1\<close>, a second call with the same text
  less than 1000 ms later is not delivered, and a third one at least 1000 ms after the
  first is delivered, whatever calls with other texts come in between.
\<close>

lemma debounce_other_texts:
  assumes first: "fst (sendNotification osType messageText timeout1 t1 tbl0) \<noteq> None"
      and key: "messageText \<noteq> ''__proto__''"
      and clock: "t1 \<noteq> 0"
      and tbl1: "tbl1 = snd (sendAll osType others1 (snd (sendNotification osType messageText timeout1 t1 tbl0)))"
      and o1: "\<forall>c \<in> set others1. fst c \<noteq> messageText"
      and second: "t2 - t1 < 1000"
      and tbl2: "tbl2 = snd (sendAll osType others2 (snd (sendNotification osType messageText timeout2 t2 tbl1)))"
      and o2: "\<forall>c \<in> set others2. fst c \<noteq> messageText"
      and third: "1000 \<le> t3 - t1"
  shows "fst (sendNotification osType messageText timeout2 t2 tbl1) = None
         \<and> fst (sendNotification osType messageText timeout3 t3 tbl2)
             = Some (NotifyCall ''OpenCode'' messageText timeout3 (if osType = ''Darwin'' then Some False else None))"
proof -
  have k1: "tbl1 messageText = Some t1"
    unfolding tbl1 using sendAll_other [OF o1] sendNotification_delivered [OF first key] by simp
  have d2: "debounced tbl1 messageText t2"
    using k1 clock second key by (simp add: debounced_def DEBOUNCE_MS_def)
  then have r2: "sendNotification osType messageText timeout2 t2 tbl1 = (None, tbl1)"
    by (simp add: sendNotification_def)
  have k2: "tbl2 messageText = Some t1"
    unfolding tbl2 r2 using sendAll_other [OF o2] k1 by simp
  have "\<not> debounced tbl2 messageText t3"
    using k2 third by (simp add: debounced_def DEBOUNCE_MS_def)
  then have "fst (sendNotification osType messageText timeout3 t3 tbl2)
             = Some (NotifyCall ''OpenCode'' messageText timeout3 (if osType = ''Darwin'' then Some False else None))"
    by (simp add: sendNotification_def NOTIFICATION_TITLE_def)
  with r2 show ?thesis by simp
qed

lemma debounce_example:
  "fst (sendAll ''Linux''
     [(''Session has finished'', Finite 5, 1700000000000),
      (''Session needs permission'', Finite 5, 1700000000200),
      (''Session has finished'', Finite 5, 1700000000999),
      (''Session has finished'', Finite 5, 1700000001000)] Map.empty)
   = [Some (NotifyCall ''OpenCode'' ''Session has finished'' (Finite 5) None),
      Some (NotifyCall ''OpenCode'' ''Session needs permission'' (Finite 5) None),
      None,
      Some (NotifyCall ''OpenCode'' ''Session has finished'' (Finite 5) None)]"
  by (simp add: sendNotification_def debounced_def stamp_def NOTIFICATION_TITLE_def DEBOUNCE_MS_def)

text \<open>
  Claim C2. Two calls of \<open>sendNotification\<close> with the same message text, the second 500 ms
  after the first, ought to deliver only the first. For the message text \<open>__proto__\<close> both
  are delivered: the table is a plain object, which does not keep a stamp under that key.
  The same happens for any text when the first call is made at clock reading 0, since the
  guard takes the stamp 0 for no stamp.
\<close>

theorem debounce_misses_proto_key:
  "fst (sendAll ''Linux''
     [(''__proto__'', Finite 5, 1700000000000),
      (''__proto__'', Finite 5, 1700000000500)] Map.empty)
   = [Some (NotifyCall ''OpenCode'' ''__proto__'' (Finite 5) None),
      Some (NotifyCall ''OpenCode'' ''__proto__'' (Finite 5) None)]
   \<and> fst (sendAll ''Linux''
     [(''Session has finished'', Finite 5, 0),
      (''Session has finished'', Finite 5, 500)] Map.empty)
   = [Some (NotifyCall ''OpenCode'' ''Session has finished'' (Finite 5) None),
      Some (NotifyCall ''OpenCode'' ''Session has finished'' (Finite 5) None)]"
  by (simp add: sendNotification_def debounced_def stamp_def NOTIFICATION_TITLE_def DEBOUNCE_MS_def)

end
